theory Spec2Isabelle
  imports Main "HOL-Library.Word" "HOL-Library.AList" "HOL-Library.Sublist"
begin

section \<open>Python values, text and bytes\<close>

text \<open>
  The module under verification is \<^verbatim>\<open>src/umap/geodata.py\<close>, a single function
  \<^verbatim>\<open>gpkg_to_geojson(file_obj)\<close>. It owns no algorithm of its own: it orchestrates a
  temporary file, the Fiona library (or the \<^verbatim>\<open>ogr2ogr\<close> program), \<^verbatim>\<open>json.dumps\<close> and two
  string codecs. The embedding keeps that shape. What the function calls but does not
  define (Fiona, \<^verbatim>\<open>json.dumps\<close>, the operating system's process launcher) is a field
  of an environment record; what it does itself (control flow, exception handling,
  the temporary file, the dictionaries it builds) is written out.

  A Python \<^verbatim>\<open>bytes\<close> object is a list of 8-bit characters, a Python \<^verbatim>\<open>str\<close> a list of
  Unicode code points.
\<close>

type_synonym bytes = string
type_synonym str = "nat list"

definition ascii :: "string \<Rightarrow> str" where
  "ascii s = map of_char s"

text \<open>
  The values that flow through the function. A \<^verbatim>\<open>float\<close> is its IEEE-754 bit pattern
  (the code never computes with one); tuples and lists are both \<open>PList\<close>; a \<^verbatim>\<open>dict\<close>
  with string keys is an association list in insertion order.
\<close>

datatype pyval =
    PNone
  | PBool bool
  | PInt int
  | PFloat "64 word"
  | PStr str
  | PBytes bytes
  | PList "pyval list"
  | PDict "(str \<times> pyval) list"

type_synonym pydict = "(str \<times> pyval) list"

text \<open>Truth value testing, as \<^verbatim>\<open>if geom:\<close> and \<^verbatim>\<open>x or {}\<close> perform it.\<close>

fun truthy :: "pyval \<Rightarrow> bool" where
  "truthy PNone = False"
| "truthy (PBool b) = b"
| "truthy (PInt i) = (i \<noteq> 0)"
| "truthy (PFloat w) = (w \<noteq> 0 \<and> w \<noteq> 0x8000000000000000)"
| "truthy (PStr s) = (s \<noteq> [])"
| "truthy (PBytes b) = (b \<noteq> [])"
| "truthy (PList xs) = (xs \<noteq> [])"
| "truthy (PDict d) = (d \<noteq> [])"

text \<open>\<^verbatim>\<open>d.get(k)\<close>: the value stored under \<open>k\<close>, \<^verbatim>\<open>None\<close> when the key is missing.\<close>

definition dict_get :: "pydict \<Rightarrow> str \<Rightarrow> pyval" where
  "dict_get d k = (case map_of d k of None \<Rightarrow> PNone | Some v \<Rightarrow> v)"

text \<open>\<^verbatim>\<open>a or b\<close>.\<close>

definition py_or :: "pyval \<Rightarrow> pyval \<Rightarrow> pyval" where
  "py_or a b = (if truthy a then a else b)"

subsection \<open>Exceptions\<close>

text \<open>
  Exceptions derived from \<^verbatim>\<open>Exception\<close>, which is what every handler of the source
  catches. \<open>RuntimeError\<close> is the type the docstring promises; \<open>CalledProcessError\<close>
  carries return code, captured standard output and captured standard error;
  \<open>OtherException\<close> is an exception of any other class, with the class name and its
  text (Fiona's \<^verbatim>\<open>DriverError\<close>, \<^verbatim>\<open>TypeError\<close> from \<^verbatim>\<open>json.dumps\<close>, ...).
\<close>

datatype exn =
    RuntimeError str
  | CalledProcessError int bytes bytes
  | FileNotFoundError str
  | UnicodeDecodeError
  | UnicodeEncodeError
  | OtherException str str

subsection \<open>The UTF-8 codec\<close>

text \<open>
  \<^verbatim>\<open>str.encode("utf-8")\<close>: one to four bytes per code point; a surrogate
  (U+D800..U+DFFF) cannot be encoded and raises \<^verbatim>\<open>UnicodeEncodeError\<close>.
\<close>

definition encode_code_point :: "nat \<Rightarrow> exn + bytes" where
  "encode_code_point c =
     (if c < 0x80 then Inr [char_of c]
      else if c < 0x800 then Inr [char_of (0xC0 + c div 64), char_of (0x80 + c mod 64)]
      else if 0xD800 \<le> c \<and> c < 0xE000 then Inl UnicodeEncodeError
      else if c < 0x10000 then
        Inr [char_of (0xE0 + c div 4096), char_of (0x80 + c div 64 mod 64),
             char_of (0x80 + c mod 64)]
      else if c < 0x110000 then
        Inr [char_of (0xF0 + c div 262144), char_of (0x80 + c div 4096 mod 64),
             char_of (0x80 + c div 64 mod 64), char_of (0x80 + c mod 64)]
      else Inl UnicodeEncodeError)"

fun str_encode_utf8 :: "str \<Rightarrow> exn + bytes" where
  "str_encode_utf8 [] = Inr []"
| "str_encode_utf8 (c # cs) =
     (case encode_code_point c of
        Inl e \<Rightarrow> Inl e
      | Inr bs \<Rightarrow> (case str_encode_utf8 cs of Inl e \<Rightarrow> Inl e | Inr rest \<Rightarrow> Inr (bs @ rest)))"

text \<open>
  \<^verbatim>\<open>bytes.decode("utf-8", errors=...)\<close>. \<open>utf8_step\<close> looks at the front of the
  input: either a well-formed sequence (its code point and its length) or a
  malformed one (the number of bytes the error covers: the maximal prefix of a
  sequence that could still have been well formed). Overlong forms, surrogates and
  values above U+10FFFF are malformed at the lead byte.
\<close>

datatype errors = Strict | Replace

datatype decoded = Scalar nat nat | Malformed nat

definition is_continuation :: "nat \<Rightarrow> bool" where
  "is_continuation b = (0x80 \<le> b \<and> b < 0xC0)"

fun utf8_step :: "nat list \<Rightarrow> decoded" where
  "utf8_step [] = Malformed 0"
| "utf8_step (b # bs) =
     (if b < 0x80 then Scalar b 1
      else if b < 0xC2 then Malformed 1
      else if b < 0xE0 then
        (case bs of
           [] \<Rightarrow> Malformed 1
         | b2 # _ \<Rightarrow>
             if is_continuation b2 then Scalar ((b - 0xC0) * 64 + (b2 - 0x80)) 2
             else Malformed 1)
      else if b < 0xF0 then
        (case bs of
           [] \<Rightarrow> Malformed 1
         | b2 # bs2 \<Rightarrow>
             if \<not> is_continuation b2 \<or> (if b2 < 0xA0 then b = 0xE0 else b = 0xED)
             then Malformed 1
             else (case bs2 of
                     [] \<Rightarrow> Malformed 2
                   | b3 # _ \<Rightarrow>
                       if is_continuation b3
                       then Scalar ((b - 0xE0) * 4096 + (b2 - 0x80) * 64 + (b3 - 0x80)) 3
                       else Malformed 2))
      else if b < 0xF5 then
        (case bs of
           [] \<Rightarrow> Malformed 1
         | b2 # bs2 \<Rightarrow>
             if \<not> is_continuation b2 \<or> (if b2 < 0x90 then b = 0xF0 else b = 0xF4)
             then Malformed 1
             else (case bs2 of
                     [] \<Rightarrow> Malformed 2
                   | b3 # bs3 \<Rightarrow>
                       if \<not> is_continuation b3 then Malformed 2
                       else (case bs3 of
                               [] \<Rightarrow> Malformed 3
                             | b4 # _ \<Rightarrow>
                                 if is_continuation b4
                                 then Scalar ((b - 0xF0) * 262144 + (b2 - 0x80) * 4096
                                              + (b3 - 0x80) * 64 + (b4 - 0x80)) 4
                                 else Malformed 3)))
      else Malformed 1)"

text \<open>
  The decoder proper. With \<open>Strict\<close> a malformed sequence raises
  \<^verbatim>\<open>UnicodeDecodeError\<close>; with \<open>Replace\<close> it becomes U+FFFD and decoding resumes
  behind it.
\<close>

fun utf8_decode :: "errors \<Rightarrow> nat list \<Rightarrow> exn + str" where
  "utf8_decode h [] = Inr []"
| "utf8_decode h (b # bs) =
     (case utf8_step (b # bs) of
        Scalar cp n \<Rightarrow>
          (case utf8_decode h (drop (n - 1) bs) of
             Inl e \<Rightarrow> Inl e
           | Inr s \<Rightarrow> Inr (cp # s))
      | Malformed n \<Rightarrow>
          (case h of
             Strict \<Rightarrow> Inl UnicodeDecodeError
           | Replace \<Rightarrow>
               (case utf8_decode h (drop (n - 1) bs) of
                  Inl e \<Rightarrow> Inl e
                | Inr s \<Rightarrow> Inr (0xFFFD # s))))"

definition bytes_decode_utf8 :: "errors \<Rightarrow> bytes \<Rightarrow> exn + str" where
  "bytes_decode_utf8 h bs = utf8_decode h (map of_char bs)"

section \<open>The world outside the function\<close>

subsection \<open>Files\<close>

text \<open>
  The file system is an association list from path names to contents, the trace
  \<open>calls\<close> records every call the function makes to a collaborator, in order.
\<close>

datatype call =
    FionaOpen str
  | TransformGeom pydict pydict pyval
  | JsonDumps pyval
  | SubprocessRun "str list"

record world =
  files :: "(str \<times> bytes) list"
  calls :: "call list"

text \<open>
  \<^verbatim>\<open>tempfile.NamedTemporaryFile(suffix=...)\<close> creates an empty file under a name no
  existing file has (here: one longer than every existing name) and returns the name.
\<close>

definition tmp_name :: "str \<Rightarrow> (str \<times> bytes) list \<Rightarrow> str" where
  "tmp_name sfx fs =
     ascii ''/tmp/tmp''
     @ replicate (Suc (foldr (\<lambda>p n. max (length (fst p)) n) fs 0)) (of_char CHR ''x'')
     @ sfx"

definition named_temporary_file :: "str \<Rightarrow> world \<Rightarrow> str \<times> world" where
  "named_temporary_file sfx w =
     (let name = tmp_name sfx (files w)
      in (name, w\<lparr>files := AList.update name [] (files w)\<rparr>))"

text \<open>\<^verbatim>\<open>tmp.write(data); tmp.flush()\<close>: the data goes behind what the file holds.\<close>

definition file_write :: "str \<Rightarrow> bytes \<Rightarrow> world \<Rightarrow> world" where
  "file_write name data w =
     (case map_of (files w) name of
        None \<Rightarrow> w\<lparr>files := AList.update name data (files w)\<rparr>
      | Some old \<Rightarrow> w\<lparr>files := AList.update name (old @ data) (files w)\<rparr>)"

text \<open>\<^verbatim>\<open>Path(p).unlink()\<close>, also what closing a self-deleting temporary file does.\<close>

definition path_unlink :: "str \<Rightarrow> world \<Rightarrow> exn + world" where
  "path_unlink p w =
     (case map_of (files w) p of
        None \<Rightarrow> Inl (FileNotFoundError p)
      | Some content \<Rightarrow> Inr (w\<lparr>files := AList.delete p (files w)\<rparr>))"

subsection \<open>Collaborators\<close>

text \<open>
  What \<^verbatim>\<open>fiona.open(path, layer=0)\<close> gives: the layer's CRS (\<^verbatim>\<open>src.crs\<close>, \<^verbatim>\<open>None\<close> or a
  mapping), the records the iteration yields, and the exception that ends the
  iteration early, if any.
\<close>

record layer =
  crs :: "pydict option"
  records :: "pydict list"
  iter_error :: "exn option"

record fiona_lib =
  fiona_open :: "(str \<times> bytes) list \<Rightarrow> str \<Rightarrow> exn + layer"
  transform_geom :: "pydict \<Rightarrow> pydict \<Rightarrow> pyval \<Rightarrow> exn + pyval"

record completed_process =
  returncode :: int
  stdout :: bytes
  stderr :: bytes

text \<open>
  The runtime environment of one call: the outcome of
  \<^verbatim>\<open>import fiona; from fiona.transform import transform_geom\<close>, the function
  \<^verbatim>\<open>json.dumps\<close>, and the launcher that runs a command line against the file system
  (\<open>Inl\<close> when the program cannot be started).
\<close>

record env =
  import_fiona :: "exn + fiona_lib"
  json_dumps :: "pyval \<Rightarrow> exn + str"
  run_process :: "str list \<Rightarrow> (str \<times> bytes) list \<Rightarrow> exn + completed_process"

text \<open>
  \<^verbatim>\<open>subprocess.run(cmd, stdout=PIPE, stderr=PIPE, check=True)\<close>: a non-zero return
  code raises \<^verbatim>\<open>CalledProcessError\<close>.
\<close>

definition subprocess_run ::
  "env \<Rightarrow> str list \<Rightarrow> world \<Rightarrow> (exn + completed_process) \<times> world" where
  "subprocess_run env cmd w =
     (let w' = w\<lparr>calls := calls w @ [SubprocessRun cmd]\<rparr>
      in case run_process env cmd (files w) of
           Inl e \<Rightarrow> (Inl e, w')
         | Inr proc \<Rightarrow>
             if returncode proc \<noteq> 0
             then (Inl (CalledProcessError (returncode proc) (stdout proc) (stderr proc)), w')
             else (Inr proc, w'))"

section \<open>The function \<^verbatim>\<open>gpkg_to_geojson\<close>\<close>

text \<open>
  The body of \<^verbatim>\<open>for rec in src:\<close> (lines 39 to 48): the state is the list
  \<^verbatim>\<open>features\<close> and the world.
\<close>

definition loop_body ::
  "fiona_lib \<Rightarrow> pydict \<Rightarrow> pydict \<Rightarrow> pyval list \<times> world \<Rightarrow> pyval list \<times> world" where
  "loop_body lib src_crs rec st =
     (let (features, w) = st;
          geom = dict_get rec (ascii ''geometry'');
          (geom, w) =
            (if truthy geom then
               if truthy (PDict src_crs)
                  \<and> dict_get src_crs (ascii ''init'') \<noteq> PStr (ascii ''epsg:4326'')
               then
                 (let dst = [(ascii ''init'', PStr (ascii ''epsg:4326''))];
                      w = w\<lparr>calls := calls w @ [TransformGeom src_crs dst geom]\<rparr>
                  in case transform_geom lib src_crs dst geom of
                       Inr g \<Rightarrow> (g, w)
                     | Inl e \<Rightarrow> (geom, w))
               else (geom, w)
             else (geom, w));
          props = py_or (dict_get rec (ascii ''properties'')) (PDict [])
      in (features @ [PDict [(ascii ''type'', PStr (ascii ''Feature'')),
                             (ascii ''geometry'', geom),
                             (ascii ''properties'', props)]], w))"

text \<open>
  Lines 34 to 50, the body of the \<^verbatim>\<open>try\<close>: open layer 0 of the file, convert every
  record, serialise. Whatever \<^verbatim>\<open>fiona.open\<close>, the iteration, \<^verbatim>\<open>json.dumps\<close> or
  \<^verbatim>\<open>encode\<close> raises leaves the block as it is.
\<close>

definition read_layer :: "env \<Rightarrow> fiona_lib \<Rightarrow> str \<Rightarrow> world \<Rightarrow> (exn + bytes) \<times> world" where
  "read_layer env lib tmp_path w =
     (let w = w\<lparr>calls := calls w @ [FionaOpen tmp_path]\<rparr>
      in case fiona_open lib (files w) tmp_path of
           Inl e \<Rightarrow> (Inl e, w)
         | Inr src \<Rightarrow>
             (let src_crs = (case crs src of None \<Rightarrow> [] | Some d \<Rightarrow> if truthy (PDict d) then d else []);
                  (features, w) = fold (loop_body lib src_crs) (records src) ([], w)
              in case iter_error src of
                   Some e \<Rightarrow> (Inl e, w)
                 | None \<Rightarrow>
                     (let geojson = PDict [(ascii ''type'', PStr (ascii ''FeatureCollection'')),
                                           (ascii ''features'', PList features)];
                          w = w\<lparr>calls := calls w @ [JsonDumps geojson]\<rparr>
                      in case json_dumps env geojson of
                           Inl e \<Rightarrow> (Inl e, w)
                         | Inr s \<Rightarrow> (str_encode_utf8 s, w))))"

text \<open>
  Lines 27 to 55, the branch \<^verbatim>\<open>if fiona:\<close>. The temporary file is created with
  \<^verbatim>\<open>delete=False\<close>; an exception of \<^verbatim>\<open>file_obj.read()\<close> leaves the \<^verbatim>\<open>with\<close> block, which
  closes the file and keeps it. The \<^verbatim>\<open>finally\<close> clause unlinks the file and ignores
  a failure to do so.
\<close>

definition library_path :: "env \<Rightarrow> fiona_lib \<Rightarrow> exn + bytes \<Rightarrow> world \<Rightarrow> (exn + bytes) \<times> world" where
  "library_path env lib file_obj w =
     (let (tmp, w) = named_temporary_file (ascii ''.gpkg'') w
      in case file_obj of
           Inl e \<Rightarrow> (Inl e, w)
         | Inr data \<Rightarrow>
             (let w = file_write tmp data w;
                  tmp_path = tmp;
                  (r, w) = read_layer env lib tmp_path w
              in case path_unlink tmp_path w of
                   Inr w' \<Rightarrow> (r, w')
                 | Inl e \<Rightarrow> (r, w)))"

text \<open>
  Lines 60 to 74, the fallback. The temporary file deletes itself when the \<^verbatim>\<open>with\<close>
  block is left, on every way out; only \<^verbatim>\<open>CalledProcessError\<close> is caught.
\<close>

definition process_path :: "env \<Rightarrow> exn + bytes \<Rightarrow> world \<Rightarrow> (exn + bytes) \<times> world" where
  "process_path env file_obj w =
     (let (tmp_in, w) = named_temporary_file (ascii ''.gpkg'') w;
          (r, w) =
            (case file_obj of
               Inl e \<Rightarrow> (Inl e, w)
             | Inr data \<Rightarrow>
                 (let w = file_write tmp_in data w;
                      cmd = [ascii ''ogr2ogr'', ascii ''-f'', ascii ''GeoJSON'',
                             ascii ''/vsistdout/'', tmp_in];
                      (p, w) = subprocess_run env cmd w
                  in case p of
                       Inr proc \<Rightarrow> (Inr (stdout proc), w)
                     | Inl (CalledProcessError rc out err) \<Rightarrow>
                         (case bytes_decode_utf8 Replace err of
                            Inl e \<Rightarrow> (Inl e, w)
                          | Inr msg \<Rightarrow> (Inl (RuntimeError (ascii ''ogr2ogr failed: '' @ msg)), w))
                     | Inl e \<Rightarrow> (Inl e, w)))
      in case path_unlink tmp_in w of
           Inr w' \<Rightarrow> (r, w')
         | Inl e \<Rightarrow> (Inl e, w))"

text \<open>
  The function: \<open>file_obj\<close> is what \<^verbatim>\<open>file_obj.read()\<close> does (raise, or return the
  bytes). The result is the exception raised or the bytes returned, with the world
  after the call. A failed import of any kind sets \<^verbatim>\<open>fiona = None\<close>; the branch
  \<^verbatim>\<open>if fiona:\<close> always ends in \<^verbatim>\<open>return\<close> or an exception, so the fallback is its
  \<^verbatim>\<open>else\<close>.
\<close>

definition gpkg_to_geojson :: "env \<Rightarrow> exn + bytes \<Rightarrow> world \<Rightarrow> (exn + bytes) \<times> world" where
  "gpkg_to_geojson env file_obj w =
     (let fiona = (case import_fiona env of Inl e \<Rightarrow> None | Inr lib \<Rightarrow> Some lib)
      in case fiona of
           Some lib \<Rightarrow> library_path env lib file_obj w
         | None \<Rightarrow> process_path env file_obj w)"

section \<open>The behaviour the specification describes\<close>

text \<open>
  Definitions that follow the words of the specification, to state the claims with
  and to compare with the function above.

  Section 4.1, step 2: the CRS metadata of layer 0, absent metadata being "no
  reprojection needed". Step 5: reprojection is needed when metadata is present and
  its identifier (the entry \<^verbatim>\<open>init\<close>) is not that of the target, \<^verbatim>\<open>epsg:4326\<close>.
\<close>

definition target_crs :: pydict where
  "target_crs = [(ascii ''init'', PStr (ascii ''epsg:4326''))]"

definition spec_src_crs :: "layer \<Rightarrow> pydict" where
  "spec_src_crs src = (case crs src of None \<Rightarrow> [] | Some d \<Rightarrow> d)"

definition needs_reprojection :: "layer \<Rightarrow> bool" where
  "needs_reprojection src =
     (case crs src of
        None \<Rightarrow> False
      | Some d \<Rightarrow> d \<noteq> [] \<and> dict_get d (ascii ''init'') \<noteq> PStr (ascii ''epsg:4326''))"

text \<open>
  Steps 4 and 5: the geometry of a feature is the record's geometry, reprojected
  when it is present and reprojection is needed, and kept when reprojecting fails; the
  properties are the record's mapping, an absent one being empty.
\<close>

definition spec_geometry :: "fiona_lib \<Rightarrow> layer \<Rightarrow> pyval \<Rightarrow> pyval" where
  "spec_geometry lib src g =
     (if truthy g \<and> needs_reprojection src
      then (case transform_geom lib (spec_src_crs src) target_crs g of
              Inr g' \<Rightarrow> g'
            | Inl e \<Rightarrow> g)
      else g)"

definition spec_properties :: "pydict \<Rightarrow> pyval" where
  "spec_properties rec =
     (case map_of rec (ascii ''properties'') of
        None \<Rightarrow> PDict []
      | Some p \<Rightarrow> if truthy p then p else PDict [])"

definition spec_feature :: "fiona_lib \<Rightarrow> layer \<Rightarrow> pydict \<Rightarrow> pyval" where
  "spec_feature lib src rec =
     PDict [(ascii ''type'', PStr (ascii ''Feature'')),
            (ascii ''geometry'', spec_geometry lib src (dict_get rec (ascii ''geometry''))),
            (ascii ''properties'', spec_properties rec)]"

text \<open>Step 6: one FeatureCollection of all features, in the order of the records.\<close>

definition spec_document :: "fiona_lib \<Rightarrow> layer \<Rightarrow> pyval" where
  "spec_document lib src =
     PDict [(ascii ''type'', PStr (ascii ''FeatureCollection'')),
            (ascii ''features'', PList (map (spec_feature lib src) (records src)))]"

text \<open>Step 7: serialise to JSON and encode as UTF-8.\<close>

definition serialise :: "env \<Rightarrow> pyval \<Rightarrow> exn + bytes" where
  "serialise env doc =
     (case json_dumps env doc of Inl e \<Rightarrow> Inl e | Inr s \<Rightarrow> str_encode_utf8 s)"

text \<open>
  The reprojections the specification asks for, as calls: one for every record of
  the list whose geometry is present, in order, when reprojection is needed.
\<close>

definition spec_transform_calls :: "layer \<Rightarrow> pydict list \<Rightarrow> call list" where
  "spec_transform_calls src recs =
     (if needs_reprojection src
      then map (TransformGeom (spec_src_crs src) target_crs)
               (filter truthy (map (\<lambda>rec. dict_get rec (ascii ''geometry'')) recs))
      else [])"

fun is_TransformGeom :: "call \<Rightarrow> bool" where
  "is_TransformGeom (TransformGeom a b g) = True"
| "is_TransformGeom c = False"

fun is_SubprocessRun :: "call \<Rightarrow> bool" where
  "is_SubprocessRun (SubprocessRun cmd) = True"
| "is_SubprocessRun c = False"

text \<open>The command line of the fallback, for an input file \<open>p\<close>.\<close>

definition ogr2ogr_cmd :: "str \<Rightarrow> str list" where
  "ogr2ogr_cmd p =
     [ascii ''ogr2ogr'', ascii ''-f'', ascii ''GeoJSON'', ascii ''/vsistdout/'', p]"

text \<open>
  What the library branch makes of the outcome of \<^verbatim>\<open>fiona.open\<close> (section 4.1, step 8,
  and section 7): an exception of the library, of the iteration or of the
  serialisation is the outcome of the call; otherwise the serialised document is.
\<close>

definition layer_outcome :: "env \<Rightarrow> fiona_lib \<Rightarrow> exn + layer \<Rightarrow> exn + bytes" where
  "layer_outcome env lib r =
     (case r of
        Inl e \<Rightarrow> Inl e
      | Inr src \<Rightarrow>
          (case iter_error src of
             Some e \<Rightarrow> Inl e
           | None \<Rightarrow> serialise env (spec_document lib src)))"

definition layer_calls :: "fiona_lib \<Rightarrow> exn + layer \<Rightarrow> call list" where
  "layer_calls lib r =
     (case r of
        Inl e \<Rightarrow> []
      | Inr src \<Rightarrow>
          spec_transform_calls src (records src)
          @ (case iter_error src of
               Some e \<Rightarrow> []
             | None \<Rightarrow> [JsonDumps (spec_document lib src)]))"

text \<open>
  Path B, steps 4 and 5: standard output on exit status zero, otherwise a
  \<open>RuntimeError\<close> whose message embeds the decoded standard error. An exception of
  the launcher other than \<^verbatim>\<open>CalledProcessError\<close> is not handled.
\<close>

definition failure_message :: "bytes \<Rightarrow> exn + bytes" where
  "failure_message err =
     (case bytes_decode_utf8 Replace err of
        Inl e \<Rightarrow> Inl e
      | Inr msg \<Rightarrow> Inl (RuntimeError (ascii ''ogr2ogr failed: '' @ msg)))"

definition process_outcome :: "exn + completed_process \<Rightarrow> exn + bytes" where
  "process_outcome r =
     (case r of
        Inr proc \<Rightarrow>
          if returncode proc \<noteq> 0 then failure_message (stderr proc) else Inr (stdout proc)
      | Inl (CalledProcessError rc out err) \<Rightarrow> failure_message err
      | Inl e \<Rightarrow> Inl e)"

section \<open>Test doubles\<close>

text \<open>
  A concrete environment to run the function in: a Fiona that recognises three
  sample files (one with a layer in Web Mercator holding a point, a record without
  geometry and properties, and a point without coordinates that cannot be
  reprojected; one with a layer that is in EPSG:4326 already; one whose only record
  has a binary attribute); and a converter program that accepts the first file.
\<close>

definition sample_gpkg :: bytes where
  "sample_gpkg = ''SQLite format 3: sample.gpkg''"

definition point :: "64 word \<Rightarrow> 64 word \<Rightarrow> pyval" where
  "point x y =
     PDict [(ascii ''type'', PStr (ascii ''Point'')),
            (ascii ''coordinates'', PList [PFloat x, PFloat y])]"

definition malformed_point :: pyval where
  "malformed_point = PDict [(ascii ''type'', PStr (ascii ''Point''))]"

definition sample_layer :: layer where
  "sample_layer =
     \<lparr>crs = Some [(ascii ''init'', PStr (ascii ''epsg:3857''))],
      records =
        [[(ascii ''geometry'', point 0x412E848000000000 0x4130000000000000),
          (ascii ''properties'', PDict [(ascii ''name'', PStr (ascii ''a''))])],
         [(ascii ''geometry'', PNone)],
         [(ascii ''geometry'', malformed_point),
          (ascii ''properties'', PDict [(ascii ''name'', PStr (ascii ''c''))])]],
      iter_error = None\<rparr>"

definition wgs84_gpkg :: bytes where
  "wgs84_gpkg = ''SQLite format 3: wgs84.gpkg''"

definition wgs84_layer :: layer where
  "wgs84_layer =
     \<lparr>crs = Some [(ascii ''init'', PStr (ascii ''epsg:4326''))],
      records =
        [[(ascii ''geometry'', point 0x4021F75104D551D7 0x4022000000000000),
          (ascii ''properties'', PDict [(ascii ''name'', PStr (ascii ''a''))])]],
      iter_error = None\<rparr>"

definition blob_gpkg :: bytes where
  "blob_gpkg = ''SQLite format 3: photos.gpkg''"

definition blob_layer :: layer where
  "blob_layer =
     \<lparr>crs = Some [(ascii ''init'', PStr (ascii ''epsg:4326''))],
      records =
        [[(ascii ''geometry'', point 0x4021F75104D551D7 0x4022000000000000),
          (ascii ''properties'', PDict [(ascii ''thumbnail'', PBytes ''PNG'')])]],
      iter_error = None\<rparr>"

definition stub_fiona :: fiona_lib where
  "stub_fiona =
     \<lparr>fiona_open = (\<lambda>fs p.
        case map_of fs p of
          None \<Rightarrow> Inl (OtherException (ascii ''DriverError'') (ascii ''No such file or directory''))
        | Some b \<Rightarrow>
            if b = sample_gpkg then Inr sample_layer
            else if b = wgs84_gpkg then Inr wgs84_layer
            else if b = blob_gpkg then Inr blob_layer
            else Inl (OtherException (ascii ''DriverError'')
                        (ascii ''not recognized as being in a supported file format''))),
      transform_geom = (\<lambda>src dst g.
        if g = malformed_point
        then Inl (OtherException (ascii ''ValueError'') (ascii ''malformed geometry''))
        else Inr (point 0x4021F75104D551D7 0x4022000000000000))\<rparr>"

text \<open>
  The stand-in for \<^verbatim>\<open>json.dumps\<close> does what the real one does with a value that
  holds a \<^verbatim>\<open>bytes\<close> object: it raises \<^verbatim>\<open>TypeError\<close>. For every other dictionary it
  returns a fixed text.
\<close>

fun has_bytes :: "pyval \<Rightarrow> bool" where
  "has_bytes (PBytes b) = True"
| "has_bytes (PList xs) = list_ex has_bytes xs"
| "has_bytes (PDict d) = list_ex (\<lambda>kv. has_bytes (snd kv)) d"
| "has_bytes v = False"

definition stub_dumps :: "pyval \<Rightarrow> exn + str" where
  \<open>stub_dumps v =
     (if has_bytes v
      then Inl (OtherException (ascii ''TypeError'')
                  (ascii ''Object of type bytes is not JSON serializable''))
      else case v of
             PDict d \<Rightarrow> Inr (ascii ''{"type": "FeatureCollection", "features": ["..."]}'')
           | _ \<Rightarrow> Inr (ascii ''null''))\<close>

text \<open>
  A diagnostic that is not UTF-8: after \<^verbatim>\<open>bad layer: \<close> come a well-formed two-byte
  sequence (U+00E9), a Latin-1 byte \<^verbatim>\<open>0xE9\<close>, a space, a three-byte sequence cut
  short after two bytes, and a colon.
\<close>

definition garbled_gpkg :: bytes where
  "garbled_gpkg = ''SQLite format 3: garbled.gpkg''"

definition garbled_stderr :: bytes where
  "garbled_stderr =
     ''bad layer: '' @ [CHR 0xC3, CHR 0xA9, CHR 0xE9, CHR 0x20, CHR 0xE2, CHR 0x82, CHR 0x3A]"

definition stub_ogr2ogr :: "str list \<Rightarrow> (str \<times> bytes) list \<Rightarrow> exn + completed_process" where
  \<open>stub_ogr2ogr cmd fs =
     (if cmd = [] then Inl (FileNotFoundError [])
      else case map_of fs (last cmd) of
             None \<Rightarrow> Inr \<lparr>returncode = 1, stdout = [], stderr = ''no such file''\<rparr>
           | Some b \<Rightarrow>
               if b = sample_gpkg
               then Inr \<lparr>returncode = 0,
                         stdout = ''{"type":"FeatureCollection","features":[]}'',
                         stderr = []\<rparr>
               else if b = garbled_gpkg
               then Inr \<lparr>returncode = 1, stdout = [], stderr = garbled_stderr\<rparr>
               else Inr \<lparr>returncode = 1, stdout = [], stderr = ''bad layer''\<rparr>)\<close>

definition env_with_fiona :: env where
  "env_with_fiona =
     \<lparr>import_fiona = Inr stub_fiona, json_dumps = stub_dumps, run_process = stub_ogr2ogr\<rparr>"

definition env_without_fiona :: env where
  "env_without_fiona =
     \<lparr>import_fiona = Inl (OtherException (ascii ''ModuleNotFoundError'')
                             (ascii ''No module named fiona'')),
      json_dumps = stub_dumps, run_process = stub_ogr2ogr\<rparr>"

definition empty_world :: world where
  "empty_world = \<lparr>files = [], calls = []\<rparr>"

section \<open>Text literals\<close>

lemma ascii_eq_iff [simp]: "ascii s = ascii t \<longleftrightarrow> s = t"
  by (simp add: ascii_def inj_map_eq_map inj_of_char)

lemma ascii_Nil_iff [simp]: "ascii s = [] \<longleftrightarrow> s = []"
  by (simp add: ascii_def)

lemma length_ascii [simp]: "length (ascii s) = length s"
  by (simp add: ascii_def)

section \<open>The temporary file\<close>

lemma foldr_max_ge:
  "(k, v) \<in> set fs \<Longrightarrow> length k \<le> foldr (\<lambda>p n. max (length (fst p)) n) fs 0"
  by (induction fs) auto

lemma tmp_name_fresh: "tmp_name sfx fs \<notin> fst ` set fs"
proof
  assume "tmp_name sfx fs \<in> fst ` set fs"
  then obtain v where "(tmp_name sfx fs, v) \<in> set fs" by auto
  from foldr_max_ge [OF this] show False by (simp add: tmp_name_def)
qed

lemma named_temporary_file_name:
  "named_temporary_file sfx w = (tmp_name sfx (files w), snd (named_temporary_file sfx w))"
  by (simp add: named_temporary_file_def Let_def)

lemma stored_world:
  "file_write (tmp_name sfx (files w)) bs (snd (named_temporary_file sfx w))
     = w\<lparr>files := AList.update (tmp_name sfx (files w)) bs (files w)\<rparr>"
  by (simp add: named_temporary_file_def file_write_def Let_def AList.update_conv')

lemma unlink_stored:
  "path_unlink (tmp_name sfx (files w))
       (w\<lparr>files := AList.update (tmp_name sfx (files w)) bs (files w), calls := cs\<rparr>)
     = Inr (w\<lparr>calls := cs\<rparr>)"
  using tmp_name_fresh [of sfx "files w"]
  by (simp add: path_unlink_def AList.update_conv' AList.delete_update_same)

section \<open>The codec\<close>

lemma utf8_decode_replace_total: "\<exists>s. utf8_decode Replace bs = Inr s"
proof (induction bs rule: length_induct)
  case (1 bs)
  show ?case
  proof (cases bs)
    case Nil
    then show ?thesis by simp
  next
    case (Cons b rest)
    have rec: "\<exists>s. utf8_decode Replace (drop k rest) = Inr s" for k
      using 1 Cons by simp
    show ?thesis
    proof (cases "utf8_step (b # rest)")
      case (Scalar cp n)
      from rec [of "n - 1"] obtain s where "utf8_decode Replace (drop (n - 1) rest) = Inr s" ..
      with Scalar Cons show ?thesis by (simp del: utf8_step.simps)
    next
      case (Malformed n)
      from rec [of "n - 1"] obtain s where "utf8_decode Replace (drop (n - 1) rest) = Inr s" ..
      with Malformed Cons show ?thesis by (simp del: utf8_step.simps)
    qed
  qed
qed

lemma utf8_decode_ascii: "\<forall>b\<in>set bs. b < 128 \<Longrightarrow> utf8_decode h bs = Inr bs"
  by (induction bs) simp_all

lemma bytes_decode_replace_total: "\<exists>s. bytes_decode_utf8 Replace bs = Inr s"
  by (simp add: bytes_decode_utf8_def utf8_decode_replace_total)

lemma bytes_decode_ascii:
  "\<forall>c\<in>set bs. of_char c < (128::nat) \<Longrightarrow> bytes_decode_utf8 h bs = Inr (ascii bs)"
  by (simp add: bytes_decode_utf8_def utf8_decode_ascii ascii_def)

lemma str_encode_ascii: "\<forall>c\<in>set t. c < 128 \<Longrightarrow> str_encode_utf8 t = Inr (map char_of t)"
  by (induction t) (simp_all add: encode_code_point_def)

text \<open>
  The decoder against the encoder. A code point the encoder accepts is read back by
  one step of the decoder; conversely a step that reads a code point has consumed
  exactly the bytes the encoder writes for it. So the decoder accepts what the
  encoder produces and nothing else, and in mode \<open>Replace\<close> every other byte sequence
  leaves U+FFFD in the text.
\<close>

lemma split3:
  fixes c :: nat
  shows "c = c div 4096 * 4096 + c div 64 mod 64 * 64 + c mod 64"
proof -
  have 1: "c = c div 64 * 64 + c mod 64" by simp
  have 2: "c div 64 = c div 64 div 64 * 64 + c div 64 mod 64" by simp
  have 3: "c div 64 div 64 = c div 4096" by (simp add: div_mult2_eq)
  from 1 2 3 show ?thesis by linarith
qed

lemma split4:
  fixes c :: nat
  shows "c = c div 262144 * 262144 + c div 4096 mod 64 * 4096 + c div 64 mod 64 * 64 + c mod 64"
proof -
  have 1: "c = c div 4096 * 4096 + c div 64 mod 64 * 64 + c mod 64" by (rule split3)
  have 2: "c div 4096 = c div 4096 div 64 * 64 + c div 4096 mod 64" by simp
  have 3: "c div 4096 div 64 = c div 262144" by (simp add: div_mult2_eq)
  from 1 2 3 show ?thesis by linarith
qed

lemma utf8_step_3:
  fixes q r m :: nat
  assumes "q < 16" "r < 64" "m < 64" "r < 32 \<longrightarrow> q \<noteq> 0" "32 \<le> r \<longrightarrow> q \<noteq> 13"
  shows "utf8_step ((0xE0 + q) # (0x80 + r) # (0x80 + m) # rest)
           = Scalar (q * 4096 + r * 64 + m) 3"
  using assms by (simp add: is_continuation_def)

lemma utf8_step_4:
  fixes q p r m :: nat
  assumes "q < 5" "p < 64" "r < 64" "m < 64" "p < 16 \<longrightarrow> q \<noteq> 0" "16 \<le> p \<longrightarrow> q \<noteq> 4"
  shows "utf8_step ((0xF0 + q) # (0x80 + p) # (0x80 + r) # (0x80 + m) # rest)
           = Scalar (q * 262144 + p * 4096 + r * 64 + m) 4"
  using assms by (simp add: is_continuation_def)

lemma utf8_step_2:
  fixes q m :: nat
  assumes "2 \<le> q" "q < 32" "m < 64"
  shows "utf8_step ((0xC0 + q) # (0x80 + m) # rest) = Scalar (q * 64 + m) 2"
  using assms by (simp add: is_continuation_def)


lemma of_char_of_small: "n < 256 \<Longrightarrow> of_char (char_of n) = (n::nat)"
  by simp

lemma utf8_step_encoded:
  assumes "encode_code_point c = Inr cs"
  shows "utf8_step (map of_char cs @ rest) = Scalar c (length cs) \<and> cs \<noteq> []"
proof -
  consider "c < 0x80" | "0x80 \<le> c" "c < 0x800"
    | "0x800 \<le> c" "c < 0x10000" "\<not> (0xD800 \<le> c \<and> c < 0xE000)"
    | "0x10000 \<le> c" "c < 0x110000"
    | "0xD800 \<le> c" "c < 0xE000" | "0x110000 \<le> c"
    by linarith
  then show ?thesis
  proof cases
    case 1
    with assms show ?thesis by (auto simp: encode_code_point_def)
  next
    case 2
    define q m where "q = c div 64" and "m = c mod 64"
    have c: "c = q * 64 + m" by (simp add: q_def m_def)
    have bounds: "2 \<le> q" "q < 32" "m < 64"
      using 2 by (simp_all add: q_def m_def less_mult_imp_div_less)
    from assms 2 have cs: "cs = [char_of (0xC0 + q), char_of (0x80 + m)]"
      by (simp add: encode_code_point_def q_def m_def)
    have bytes: "map of_char cs = [0xC0 + q, 0x80 + m]"
      using bounds by (simp add: cs of_char_of_small)
    show ?thesis
      using utf8_step_2 [OF bounds, of rest] by (simp add: bytes c) (simp add: cs)
  next
    case 3
    define q r m where "q = c div 4096" and "r = c div 64 mod 64" and "m = c mod 64"
    have c: "c = q * 4096 + r * 64 + m"
      unfolding q_def r_def m_def by (rule split3)
    have bounds: "q < 16" "r < 64" "m < 64"
      using 3 by (simp_all add: q_def r_def m_def less_mult_imp_div_less)
    have z: "r < 32 \<longrightarrow> q \<noteq> 0" using c 3 bounds by linarith
    have s: "32 \<le> r \<longrightarrow> q \<noteq> 13" using c 3 bounds by linarith
    from assms 3
    have cs: "cs = [char_of (0xE0 + q), char_of (0x80 + r), char_of (0x80 + m)]"
      by (auto simp add: encode_code_point_def q_def r_def m_def)
    have bytes: "map of_char cs = [0xE0 + q, 0x80 + r, 0x80 + m]"
      using bounds by (simp add: cs of_char_of_small)
    show ?thesis
      using utf8_step_3 [OF bounds z s, of rest] by (simp add: bytes c [symmetric]) (simp add: cs)
  next
    case 4
    define q p r m where "q = c div 262144" and "p = c div 4096 mod 64"
      and "r = c div 64 mod 64" and "m = c mod 64"
    have c: "c = q * 262144 + p * 4096 + r * 64 + m"
      unfolding q_def p_def r_def m_def by (rule split4)
    have bounds: "q < 5" "p < 64" "r < 64" "m < 64"
      using 4 by (simp_all add: q_def p_def r_def m_def less_mult_imp_div_less)
    have z: "p < 16 \<longrightarrow> q \<noteq> 0" using c 4 bounds by linarith
    have s: "16 \<le> p \<longrightarrow> q \<noteq> 4" using c 4 bounds by linarith
    from assms 4
    have cs: "cs = [char_of (0xF0 + q), char_of (0x80 + p), char_of (0x80 + r),
                    char_of (0x80 + m)]"
      by (auto simp add: encode_code_point_def q_def p_def r_def m_def)
    have bytes: "map of_char cs = [0xF0 + q, 0x80 + p, 0x80 + r, 0x80 + m]"
      using bounds by (simp add: cs of_char_of_small)
    show ?thesis
      using utf8_step_4 [OF bounds z s, of rest] by (simp add: bytes c [symmetric]) (simp add: cs)
  next
    case 5
    with assms show ?thesis by (auto simp: encode_code_point_def)
  next
    case 6
    with assms show ?thesis by (auto simp: encode_code_point_def)
  qed
qed


lemma digit:
  fixes k m :: nat
  assumes "m < 64"
  shows "(k * 64 + m) div 64 = k" and "(k * 64 + m) mod 64 = m"
  using assms by simp_all

lemma digits3:
  fixes q r m :: nat
  assumes "r < 64" "m < 64"
  shows "(q * 4096 + r * 64 + m) div 4096 = q"
    and "(q * 4096 + r * 64 + m) div 64 mod 64 = r"
    and "(q * 4096 + r * 64 + m) mod 64 = m"
proof -
  have a: "q * 4096 + r * 64 + m = (q * 64 + r) * 64 + m" by simp
  have d: "(q * 4096 + r * 64 + m) div 64 = q * 64 + r"
    unfolding a by (rule digit [OF assms(2)])
  show "(q * 4096 + r * 64 + m) mod 64 = m"
    unfolding a by (rule digit [OF assms(2)])
  show "(q * 4096 + r * 64 + m) div 64 mod 64 = r"
    unfolding d by (rule digit [OF assms(1)])
  have "(q * 4096 + r * 64 + m) div 4096 = (q * 4096 + r * 64 + m) div 64 div 64"
    by (simp add: div_mult2_eq)
  also have "\<dots> = q"
    unfolding d by (rule digit [OF assms(1)])
  finally show "(q * 4096 + r * 64 + m) div 4096 = q" .
qed

lemma digits4:
  fixes q p r m :: nat
  assumes "p < 64" "r < 64" "m < 64"
  shows "(q * 262144 + p * 4096 + r * 64 + m) div 262144 = q"
    and "(q * 262144 + p * 4096 + r * 64 + m) div 4096 mod 64 = p"
    and "(q * 262144 + p * 4096 + r * 64 + m) div 64 mod 64 = r"
    and "(q * 262144 + p * 4096 + r * 64 + m) mod 64 = m"
proof -
  have a: "q * 262144 + p * 4096 + r * 64 + m = (q * 64 + p) * 4096 + r * 64 + m" by simp
  note d = digits3 [OF assms(2,3), of "q * 64 + p"]
  show "(q * 262144 + p * 4096 + r * 64 + m) div 64 mod 64 = r"
    unfolding a by (rule d)
  show "(q * 262144 + p * 4096 + r * 64 + m) mod 64 = m"
    unfolding a by (rule d)
  show "(q * 262144 + p * 4096 + r * 64 + m) div 4096 mod 64 = p"
    unfolding a d by (rule digit [OF assms(1)])
  have "(q * 262144 + p * 4096 + r * 64 + m) div 262144
          = (q * 262144 + p * 4096 + r * 64 + m) div 4096 div 64"
    by (simp add: div_mult2_eq)
  also have "\<dots> = q"
    unfolding a d by (rule digit [OF assms(1)])
  finally show "(q * 262144 + p * 4096 + r * 64 + m) div 262144 = q" .
qed

lemma encode_2:
  fixes q m :: nat
  assumes "2 \<le> q" "q < 32" "m < 64"
  shows "encode_code_point (q * 64 + m) = Inr [char_of (0xC0 + q), char_of (0x80 + m)]"
proof -
  note d = digit [OF assms(3), of q]
  have 1: "0x80 \<le> q * 64 + m" using assms by linarith
  have 2: "q * 64 + m < 0x800" using assms by linarith
  show ?thesis
    using 1 2 assms by (simp add: encode_code_point_def)
qed

lemma encode_3:
  fixes q r m :: nat
  assumes "q < 16" "r < 64" "m < 64" "r < 32 \<longrightarrow> q \<noteq> 0" "32 \<le> r \<longrightarrow> q \<noteq> 13"
  shows "encode_code_point (q * 4096 + r * 64 + m)
           = Inr [char_of (0xE0 + q), char_of (0x80 + r), char_of (0x80 + m)]"
proof -
  note d = digits3 [OF assms(2,3), of q]
  have 1: "0x800 \<le> q * 4096 + r * 64 + m" using assms by linarith
  have 2: "q * 4096 + r * 64 + m < 0x10000" using assms by linarith
  consider "q < 13" | "q = 13" "r < 32" | "13 < q"
    using assms(5) by fastforce
  then have 3: "\<not> (0xD800 \<le> q * 4096 + r * 64 + m \<and> q * 4096 + r * 64 + m < 0xE000)"
    using assms(2,3) by cases linarith+
  show ?thesis
    using 1 2 3 by (simp add: encode_code_point_def d)
qed

lemma encode_4:
  fixes q p r m :: nat
  assumes "q < 5" "p < 64" "r < 64" "m < 64" "p < 16 \<longrightarrow> q \<noteq> 0" "16 \<le> p \<longrightarrow> q \<noteq> 4"
  shows "encode_code_point (q * 262144 + p * 4096 + r * 64 + m)
           = Inr [char_of (0xF0 + q), char_of (0x80 + p), char_of (0x80 + r), char_of (0x80 + m)]"
proof -
  note d = digits4 [OF assms(2,3,4), of q]
  have 1: "0x10000 \<le> q * 262144 + p * 4096 + r * 64 + m" using assms by linarith
  have 2: "q * 262144 + p * 4096 + r * 64 + m < 0x110000" using assms by linarith
  show ?thesis
    using 1 2 by (simp add: encode_code_point_def d)
qed


lemma encode_2_bytes:
  assumes "0xC2 \<le> b" "b < 0xE0" "is_continuation b2"
  shows "encode_code_point ((b - 0xC0) * 64 + (b2 - 0x80)) = Inr [char_of b, char_of b2]"
proof -
  have q: "2 \<le> b - 0xC0" "b - 0xC0 < 32" "b2 - 0x80 < 64"
    using assms by (auto simp add: is_continuation_def)
  have e: "0xC0 + (b - 0xC0) = b" "0x80 + (b2 - 0x80) = b2"
    using assms by (simp_all add: is_continuation_def)
  from encode_2 [OF q] show ?thesis unfolding e .
qed

lemma encode_3_bytes:
  assumes "0xE0 \<le> b" "b < 0xF0" "is_continuation b2" "is_continuation b3"
    and "b2 < 0xA0 \<longrightarrow> b \<noteq> 0xE0" "0xA0 \<le> b2 \<longrightarrow> b \<noteq> 0xED"
  shows "encode_code_point ((b - 0xE0) * 4096 + (b2 - 0x80) * 64 + (b3 - 0x80))
           = Inr [char_of b, char_of b2, char_of b3]"
proof -
  have q: "b - 0xE0 < 16" "b2 - 0x80 < 64" "b3 - 0x80 < 64"
    "b2 - 0x80 < 32 \<longrightarrow> b - 0xE0 \<noteq> 0" "32 \<le> b2 - 0x80 \<longrightarrow> b - 0xE0 \<noteq> 13"
    using assms by (auto simp add: is_continuation_def)
  have e: "0xE0 + (b - 0xE0) = b" "0x80 + (b2 - 0x80) = b2" "0x80 + (b3 - 0x80) = b3"
    using assms by (simp_all add: is_continuation_def)
  from encode_3 [OF q] show ?thesis unfolding e .
qed

lemma encode_4_bytes:
  assumes "0xF0 \<le> b" "b < 0xF5" "is_continuation b2" "is_continuation b3" "is_continuation b4"
    and "b2 < 0x90 \<longrightarrow> b \<noteq> 0xF0" "0x90 \<le> b2 \<longrightarrow> b \<noteq> 0xF4"
  shows "encode_code_point ((b - 0xF0) * 262144 + (b2 - 0x80) * 4096 + (b3 - 0x80) * 64
                            + (b4 - 0x80))
           = Inr [char_of b, char_of b2, char_of b3, char_of b4]"
proof -
  have q: "b - 0xF0 < 5" "b2 - 0x80 < 64" "b3 - 0x80 < 64" "b4 - 0x80 < 64"
    "b2 - 0x80 < 16 \<longrightarrow> b - 0xF0 \<noteq> 0" "16 \<le> b2 - 0x80 \<longrightarrow> b - 0xF0 \<noteq> 4"
    using assms by (auto simp add: is_continuation_def)
  have e: "0xF0 + (b - 0xF0) = b" "0x80 + (b2 - 0x80) = b2" "0x80 + (b3 - 0x80) = b3"
    "0x80 + (b4 - 0x80) = b4"
    using assms by (simp_all add: is_continuation_def)
  from encode_4 [OF q] show ?thesis unfolding e .
qed

lemma utf8_step_scalar:
  assumes "utf8_step (b # bs) = Scalar cp n"
  shows "1 \<le> n \<and> n \<le> Suc (length bs)
         \<and> encode_code_point cp = Inr (map char_of (take n (b # bs)))"
proof -
  consider "b < 0x80" | "0x80 \<le> b" "b < 0xC2" | "0xC2 \<le> b" "b < 0xE0"
    | "0xE0 \<le> b" "b < 0xF0" | "0xF0 \<le> b" "b < 0xF5" | "0xF5 \<le> b"
    by linarith
  then show ?thesis
  proof cases
    case 1
    with assms show ?thesis by (auto simp add: encode_code_point_def)
  next
    case 2
    with assms show ?thesis by simp
  next
    case 3
    with assms show ?thesis
      by (auto simp add: encode_2_bytes simp del: add_diff_assoc add_diff_assoc2
            split: list.splits if_splits)
  next
    case 4
    with assms show ?thesis
      by (auto simp add: encode_3_bytes simp del: add_diff_assoc add_diff_assoc2
            split: list.splits if_splits)
  next
    case 5
    with assms show ?thesis
      by (auto simp add: encode_4_bytes simp del: add_diff_assoc add_diff_assoc2
            split: list.splits if_splits)
  next
    case 6
    with assms show ?thesis by simp
  qed
qed


lemma utf8_decode_scalar:
  assumes "utf8_step xs = Scalar cp n" "xs \<noteq> []" "1 \<le> n"
  shows "utf8_decode h xs
           = (case utf8_decode h (drop n xs) of Inl e \<Rightarrow> Inl e | Inr s \<Rightarrow> Inr (cp # s))"
proof -
  from assms(2) obtain b bs where xs: "xs = b # bs" by (cases xs) auto
  have "drop n xs = drop (n - 1) bs"
    using assms(3) by (simp add: xs drop_Cons')
  then show ?thesis
    using assms(1) by (simp add: xs del: utf8_step.simps)
qed

lemma utf8_decode_encoded_prefix:
  "str_encode_utf8 s = Inr a \<Longrightarrow>
   utf8_decode h (map of_char a @ rest)
     = (case utf8_decode h rest of Inl e \<Rightarrow> Inl e | Inr t \<Rightarrow> Inr (s @ t))"
proof (induction s arbitrary: a)
  case Nil
  then show ?case by (simp split: sum.splits)
next
  case (Cons c s)
  from Cons.prems obtain cs a' where
    cs: "encode_code_point c = Inr cs" and a': "str_encode_utf8 s = Inr a'" and a: "a = cs @ a'"
    by (auto split: sum.splits)
  let ?xs = "map of_char cs @ (map of_char a' @ rest)"
  from utf8_step_encoded [OF cs, of "map of_char a' @ rest"]
  have step: "utf8_step ?xs = Scalar c (length cs)" and ne: "cs \<noteq> []"
    by simp_all
  have "utf8_decode h ?xs
          = (case utf8_decode h (drop (length cs) ?xs) of
               Inl e \<Rightarrow> Inl e | Inr s \<Rightarrow> Inr (c # s))"
    using ne by (intro utf8_decode_scalar [OF step]) (simp_all add: Suc_le_eq)
  also have "drop (length cs) ?xs = map of_char a' @ rest"
    by simp
  finally show ?case
    by (simp add: a Cons.IH [OF a'] split: sum.splits)
qed

lemma utf8_decode_no_replacement:
  "utf8_decode Replace xs = Inr msg \<Longrightarrow> 0xFFFD \<notin> set msg \<Longrightarrow>
   str_encode_utf8 msg = Inr (map char_of xs)"
proof (induction xs arbitrary: msg rule: length_induct)
  case (1 xs)
  show ?case
  proof (cases xs)
    case Nil
    with 1 show ?thesis by simp
  next
    case (Cons b bs)
    show ?thesis
    proof (cases "utf8_step (b # bs)")
      case (Malformed n)
      with 1(2,3) Cons show ?thesis
        by (auto simp del: utf8_step.simps split: sum.splits)
    next
      case (Scalar cp n)
      from utf8_step_scalar [OF Scalar]
      have n: "1 \<le> n" "n \<le> Suc (length bs)"
        and enc: "encode_code_point cp = Inr (map char_of (take n (b # bs)))"
        by simp_all
      from utf8_decode_scalar [OF Scalar _ n(1), of Replace] 1(2) Cons
      obtain s where s: "utf8_decode Replace (drop n xs) = Inr s" and msg: "msg = cp # s"
        by (auto split: sum.splits)
      have "length (drop n xs) < length xs"
        using n Cons by simp
      with 1(1) s 1(3) msg have "str_encode_utf8 s = Inr (map char_of (drop n xs))"
        by simp
      with enc have "str_encode_utf8 (cp # s)
                       = Inr (map char_of (take n xs) @ map char_of (drop n xs))"
        by (simp add: Cons)
      then show ?thesis
        by (simp add: msg flip: map_append)
    qed
  qed
qed

lemma bytes_decode_encoded_prefix:
  "str_encode_utf8 s = Inr a \<Longrightarrow>
   bytes_decode_utf8 h (a @ rest)
     = (case bytes_decode_utf8 h rest of Inl e \<Rightarrow> Inl e | Inr t \<Rightarrow> Inr (s @ t))"
  by (simp add: bytes_decode_utf8_def utf8_decode_encoded_prefix)

lemma bytes_decode_no_replacement:
  "bytes_decode_utf8 Replace bs = Inr msg \<Longrightarrow> 0xFFFD \<notin> set msg \<Longrightarrow>
   str_encode_utf8 msg = Inr bs"
  using utf8_decode_no_replacement [of "map of_char bs" msg]
  by (simp add: bytes_decode_utf8_def comp_def)

lemma bytes_decode_invalid_start:
  assumes "(0x80 \<le> (of_char c :: nat) \<and> (of_char c :: nat) < 0xC2) \<or> 0xF5 \<le> (of_char c :: nat)"
  shows "bytes_decode_utf8 Replace (c # rest)
           = (case bytes_decode_utf8 Replace rest of
                Inl e \<Rightarrow> Inl e | Inr t \<Rightarrow> Inr (0xFFFD # t))"
  using assms by (auto simp add: bytes_decode_utf8_def)

section \<open>The loop over the records\<close>

lemma needs_reprojection_code:
  "needs_reprojection src =
     (truthy (PDict (spec_src_crs src))
      \<and> dict_get (spec_src_crs src) (ascii ''init'') \<noteq> PStr (ascii ''epsg:4326''))"
  by (simp add: spec_src_crs_def needs_reprojection_def dict_get_def split: option.splits)

lemma spec_properties_code:
  "spec_properties rec = py_or (dict_get rec (ascii ''properties'')) (PDict [])"
  by (simp add: py_or_def dict_get_def spec_properties_def split: option.splits)

lemma loop_body_spec:
  "loop_body lib (spec_src_crs src) rec (fs, w) =
     (fs @ [spec_feature lib src rec], w\<lparr>calls := calls w @ spec_transform_calls src [rec]\<rparr>)"
  by (simp add: loop_body_def Let_def needs_reprojection_code spec_properties_code
        spec_feature_def spec_geometry_def spec_transform_calls_def target_crs_def
      split: sum.splits)

lemma spec_transform_calls_Cons:
  "spec_transform_calls src (r # rs) = spec_transform_calls src [r] @ spec_transform_calls src rs"
  by (simp add: spec_transform_calls_def)

lemma fold_loop_body:
  "fold (loop_body lib (spec_src_crs src)) recs (fs, w) =
     (fs @ map (spec_feature lib src) recs, w\<lparr>calls := calls w @ spec_transform_calls src recs\<rparr>)"
proof (induction recs arbitrary: fs w)
  case Nil
  show ?case by (simp add: spec_transform_calls_def)
next
  case (Cons r rs)
  show ?case
    by (simp add: loop_body_spec Cons.IH spec_transform_calls_Cons [of src r rs])
qed

section \<open>The two branches\<close>

lemma read_layer_outcome:
  "read_layer env lib p w =
     (layer_outcome env lib (fiona_open lib (files w) p),
      w\<lparr>calls := calls w @ FionaOpen p # layer_calls lib (fiona_open lib (files w) p)\<rparr>)"
proof (cases "fiona_open lib (files w) p")
  case (Inl e)
  then show ?thesis
    by (simp add: read_layer_def Let_def layer_outcome_def layer_calls_def)
next
  case (Inr src)
  have c: "(case crs src of None \<Rightarrow> [] | Some d \<Rightarrow> if truthy (PDict d) then d else [])
             = spec_src_crs src"
    by (simp add: spec_src_crs_def split: option.splits)
  show ?thesis
    using Inr
    by (simp add: read_layer_def Let_def c fold_loop_body layer_outcome_def layer_calls_def
          serialise_def spec_document_def split: option.splits sum.splits)
qed

lemma library_path_outcome:
  "library_path env lib (Inr bs) w =
     (layer_outcome env lib
        (fiona_open lib (AList.update (tmp_name (ascii ''.gpkg'') (files w)) bs (files w))
           (tmp_name (ascii ''.gpkg'') (files w))),
      w\<lparr>calls := calls w @ FionaOpen (tmp_name (ascii ''.gpkg'') (files w))
            # layer_calls lib
                (fiona_open lib (AList.update (tmp_name (ascii ''.gpkg'') (files w)) bs (files w))
                   (tmp_name (ascii ''.gpkg'') (files w)))\<rparr>)"
  apply (subst library_path_def)
  apply (subst named_temporary_file_name)
  apply (simp only: prod.case Let_def sum.case stored_world read_layer_outcome)
  apply (simp add: unlink_stored)
  done

lemma library_path_read_fails:
  "library_path env lib (Inl e) w =
     (Inl e, w\<lparr>files := AList.update (tmp_name (ascii ''.gpkg'') (files w)) [] (files w)\<rparr>)"
  by (simp add: library_path_def named_temporary_file_def Let_def)

lemma process_path_outcome:
  "process_path env (Inr bs) w =
     (process_outcome
        (run_process env (ogr2ogr_cmd (tmp_name (ascii ''.gpkg'') (files w)))
           (AList.update (tmp_name (ascii ''.gpkg'') (files w)) bs (files w))),
      w\<lparr>calls := calls w @ [SubprocessRun (ogr2ogr_cmd (tmp_name (ascii ''.gpkg'') (files w)))]\<rparr>)"
proof -
  let ?p = "tmp_name (ascii ''.gpkg'') (files w)"
  let ?w2 = "w\<lparr>files := AList.update ?p bs (files w)\<rparr>"
  let ?cmd = "[ascii ''ogr2ogr'', ascii ''-f'', ascii ''GeoJSON'', ascii ''/vsistdout/'', ?p]"
  have run: "subprocess_run env ?cmd ?w2 =
      (case run_process env (ogr2ogr_cmd ?p) (AList.update ?p bs (files w)) of
         Inl e \<Rightarrow> Inl e
       | Inr proc \<Rightarrow> if returncode proc \<noteq> 0
            then Inl (CalledProcessError (returncode proc) (stdout proc) (stderr proc))
            else Inr proc,
       ?w2\<lparr>calls := calls w @ [SubprocessRun (ogr2ogr_cmd ?p)]\<rparr>)"
    by (simp add: subprocess_run_def Let_def ogr2ogr_cmd_def split: sum.splits)
  show ?thesis
    apply (subst process_path_def)
    apply (subst named_temporary_file_name)
    apply (simp only: prod.case Let_def sum.case stored_world run)
    apply (simp add: unlink_stored process_outcome_def failure_message_def
             split: sum.splits exn.splits)
    done
qed

lemma process_path_read_fails: "process_path env (Inl e) w = (Inl e, w)"
  using tmp_name_fresh [of "ascii ''.gpkg''" "files w"]
  by (simp add: process_path_def named_temporary_file_def Let_def path_unlink_def
        AList.update_conv' AList.delete_update_same)

lemma import_failed: "import_fiona env = Inl e \<Longrightarrow> gpkg_to_geojson env f w = process_path env f w"
  by (simp add: gpkg_to_geojson_def)

lemma import_succeeded:
  "import_fiona env = Inr lib \<Longrightarrow> gpkg_to_geojson env f w = library_path env lib f w"
  by (simp add: gpkg_to_geojson_def)

lemma stored_lookup: "map_of (AList.update p bs fs) p = Some bs"
  by (simp add: AList.update_conv')

lemma library_path_valid:
  assumes "\<forall>fs p. map_of fs p = Some bs \<longrightarrow> fiona_open lib fs p = Inr src"
  shows "library_path env lib (Inr bs) w =
     (layer_outcome env lib (Inr src),
      w\<lparr>calls := calls w @ FionaOpen (tmp_name (ascii ''.gpkg'') (files w))
            # layer_calls lib (Inr src)\<rparr>)"
proof -
  have "fiona_open lib (AList.update (tmp_name (ascii ''.gpkg'') (files w)) bs (files w))
          (tmp_name (ascii ''.gpkg'') (files w)) = Inr src"
    using assms by (simp add: stored_lookup)
  then show ?thesis by (simp add: library_path_outcome)
qed

lemma gpkg_to_geojson_valid:
  assumes "import_fiona env = Inr lib"
    and "\<forall>fs p. map_of fs p = Some bs \<longrightarrow> fiona_open lib fs p = Inr src"
  shows "gpkg_to_geojson env (Inr bs) w =
     (layer_outcome env lib (Inr src),
      w\<lparr>calls := calls w @ FionaOpen (tmp_name (ascii ''.gpkg'') (files w))
            # layer_calls lib (Inr src)\<rparr>)"
  by (simp add: import_succeeded [OF assms(1)] library_path_valid [OF assms(2)])

lemma serialise_ascii:
  "json_dumps env doc = Inr txt \<Longrightarrow> \<forall>c\<in>set txt. c < 128 \<Longrightarrow>
     serialise env doc = Inr (map char_of txt)"
  by (simp add: serialise_def str_encode_ascii)

lemma filter_transform_calls [simp]:
  "filter is_TransformGeom (spec_transform_calls src recs) = spec_transform_calls src recs"
  by (simp add: spec_transform_calls_def)

lemma spec_document_features:
  "spec_document lib src =
     PDict [(ascii ''type'', PStr (ascii ''FeatureCollection'')),
            (ascii ''features'', PList (map (spec_feature lib src) (records src)))]"
  by (simp add: spec_document_def)

lemma spec_geometry_cases:
  "spec_geometry lib src g = g
   \<or> transform_geom lib (spec_src_crs src) target_crs g = Inr (spec_geometry lib src g)"
  by (simp add: spec_geometry_def split: sum.splits)

section \<open>Facts about the test doubles\<close>

lemma char_of_ascii [simp]: "map char_of (ascii s) = s"
  by (simp add: ascii_def comp_def)

lemma ascii_below_128:
  "\<forall>c\<in>set s. of_char c < (128::nat) \<Longrightarrow> \<forall>c\<in>set (ascii s). c < 128"
  by (simp add: ascii_def)

lemma stub_fiona_opens_sample:
  "\<forall>fs p. map_of fs p = Some sample_gpkg \<longrightarrow> fiona_open stub_fiona fs p = Inr sample_layer"
  by (simp add: stub_fiona_def)

lemma stub_fiona_opens_wgs84:
  "\<forall>fs p. map_of fs p = Some wgs84_gpkg \<longrightarrow> fiona_open stub_fiona fs p = Inr wgs84_layer"
  by (simp add: stub_fiona_def wgs84_gpkg_def sample_gpkg_def)

lemma stub_fiona_opens_blob:
  "\<forall>fs p. map_of fs p = Some blob_gpkg \<longrightarrow> fiona_open stub_fiona fs p = Inr blob_layer"
  by (simp add: stub_fiona_def blob_gpkg_def wgs84_gpkg_def sample_gpkg_def)

lemma stub_fiona_rejects:
  "fiona_open stub_fiona (AList.update p ''not a GeoPackage'' fs) p
     = Inl (OtherException (ascii ''DriverError'')
              (ascii ''not recognized as being in a supported file format''))"
  by (simp add: stub_fiona_def stored_lookup sample_gpkg_def wgs84_gpkg_def blob_gpkg_def)

lemma sample_needs_reprojection: "needs_reprojection sample_layer"
  by (simp add: needs_reprojection_def sample_layer_def dict_get_def)

lemma stub_dumps_document:
  \<open>json_dumps env_with_fiona (spec_document stub_fiona sample_layer)
     = Inr (ascii ''{"type": "FeatureCollection", "features": ["..."]}'')\<close>
  by (simp add: env_with_fiona_def stub_dumps_def spec_document_def spec_feature_def
        spec_geometry_def spec_properties_def sample_layer_def stub_fiona_def point_def
        malformed_point_def dict_get_def)

lemma stub_dumps_is_ascii:
  \<open>\<forall>c\<in>set (ascii ''{"type": "FeatureCollection", "features": ["..."]}''). c < 128\<close>
  by (rule ascii_below_128) simp

section \<open>Claims about the library branch\<close>

text \<open>
  Claim C1, as amended. For input bytes that Fiona opens as a layer of N records
  which the iteration yields without error, and whose collection \<^verbatim>\<open>json.dumps\<close>
  accepts (returning ASCII text, as it does with its default \<^verbatim>\<open>ensure_ascii=True\<close>),
  the library path returns the UTF-8 encoding of what \<^verbatim>\<open>json.dumps\<close> makes of the
  dictionary \<^verbatim>\<open>{"type": "FeatureCollection", "features": [...]}\<close>; its list has
  exactly N features, the i-th built from the i-th record, with the record's geometry
  (or its reprojection) and the record's property mapping.
\<close>

theorem library_path_feature_collection:
  assumes "import_fiona env = Inr lib"
    and "\<forall>fs p. map_of fs p = Some bs \<longrightarrow> fiona_open lib fs p = Inr src"
    and "iter_error src = None"
    and "json_dumps env (spec_document lib src) = Inr txt"
    and "\<forall>c\<in>set txt. c < 128"
  shows "fst (gpkg_to_geojson env (Inr bs) w) = Inr (map char_of txt)
       \<and> str_encode_utf8 txt = Inr (map char_of txt)
       \<and> last (calls (snd (gpkg_to_geojson env (Inr bs) w))) = JsonDumps (spec_document lib src)
       \<and> (\<exists>feats.
             spec_document lib src
               = PDict [(ascii ''type'', PStr (ascii ''FeatureCollection'')),
                        (ascii ''features'', PList feats)]
             \<and> length feats = length (records src)
             \<and> (\<forall>i<length (records src).
                   \<exists>g. feats ! i
                         = PDict [(ascii ''type'', PStr (ascii ''Feature'')),
                                  (ascii ''geometry'', g),
                                  (ascii ''properties'', spec_properties (records src ! i))]
                     \<and> (g = dict_get (records src ! i) (ascii ''geometry'')
                        \<or> transform_geom lib (spec_src_crs src) target_crs
                             (dict_get (records src ! i) (ascii ''geometry'')) = Inr g)))"
proof -
  have run: "gpkg_to_geojson env (Inr bs) w =
     (layer_outcome env lib (Inr src),
      w\<lparr>calls := calls w @ FionaOpen (tmp_name (ascii ''.gpkg'') (files w))
            # layer_calls lib (Inr src)\<rparr>)"
    by (simp add: import_succeeded [OF assms(1)] library_path_valid [OF assms(2)])
  have r: "fst (gpkg_to_geojson env (Inr bs) w) = Inr (map char_of txt)"
    by (simp add: run layer_outcome_def assms(3) serialise_ascii [OF assms(4,5)])
  have e: "str_encode_utf8 txt = Inr (map char_of txt)"
    using assms(5) by (rule str_encode_ascii)
  have l: "last (calls (snd (gpkg_to_geojson env (Inr bs) w))) = JsonDumps (spec_document lib src)"
    by (simp add: run layer_calls_def assms(3))
  have f: "\<forall>i<length (records src).
      \<exists>g. map (spec_feature lib src) (records src) ! i
            = PDict [(ascii ''type'', PStr (ascii ''Feature'')),
                     (ascii ''geometry'', g),
                     (ascii ''properties'', spec_properties (records src ! i))]
        \<and> (g = dict_get (records src ! i) (ascii ''geometry'')
           \<or> transform_geom lib (spec_src_crs src) target_crs
                (dict_get (records src ! i) (ascii ''geometry'')) = Inr g)"
    using spec_geometry_cases by (simp add: spec_feature_def)
  show ?thesis
    using r e l f spec_document_features [of lib src]
    by (intro conjI exI [of _ "map (spec_feature lib src) (records src)"]) simp_all
qed

theorem library_path_feature_collection_witness:
  \<open>fst (gpkg_to_geojson env_with_fiona (Inr sample_gpkg) empty_world)
     = Inr ''{"type": "FeatureCollection", "features": ["..."]}''
   \<and> length (records sample_layer) = 3\<close>
proof -
  have a: "import_fiona env_with_fiona = Inr stub_fiona"
    by (simp add: env_with_fiona_def)
  have c: "iter_error sample_layer = None"
    by (simp add: sample_layer_def)
  show ?thesis
    using library_path_feature_collection
            [OF a stub_fiona_opens_sample c stub_dumps_document stub_dumps_is_ascii, of empty_world]
    by (simp add: sample_layer_def)
qed

text \<open>
  Without the proviso on \<^verbatim>\<open>json.dumps\<close> claim C1 fails: a layer that Fiona opens and
  iterates without error, whose single record has a \<^verbatim>\<open>bytes\<close> attribute, makes
  \<^verbatim>\<open>json.dumps\<close> raise \<^verbatim>\<open>TypeError\<close>, and the call returns nothing.
\<close>

theorem library_path_unserialisable_counterexample:
  "(\<forall>fs p. fiona_open stub_fiona (AList.update p blob_gpkg fs) p = Inr blob_layer)
   \<and> length (records blob_layer) = 1
   \<and> iter_error blob_layer = None
   \<and> fst (gpkg_to_geojson env_with_fiona (Inr blob_gpkg) empty_world)
       = Inl (OtherException (ascii ''TypeError'')
                (ascii ''Object of type bytes is not JSON serializable''))
   \<and> (\<forall>out. fst (gpkg_to_geojson env_with_fiona (Inr blob_gpkg) empty_world) \<noteq> Inr out)"
proof -
  have i: "import_fiona env_with_fiona = Inr stub_fiona"
    by (simp add: env_with_fiona_def)
  have o: "\<forall>fs p. fiona_open stub_fiona (AList.update p blob_gpkg fs) p = Inr blob_layer"
    using stub_fiona_opens_blob by (simp add: stored_lookup)
  have d: "json_dumps env_with_fiona (spec_document stub_fiona blob_layer)
             = Inl (OtherException (ascii ''TypeError'')
                      (ascii ''Object of type bytes is not JSON serializable''))"
    by (simp add: env_with_fiona_def stub_dumps_def spec_document_def spec_feature_def
          spec_properties_def blob_layer_def)
  have r: "fst (gpkg_to_geojson env_with_fiona (Inr blob_gpkg) empty_world)
       = Inl (OtherException (ascii ''TypeError'')
                (ascii ''Object of type bytes is not JSON serializable''))"
  proof -
    have c: "iter_error blob_layer = None"
      by (simp add: blob_layer_def)
    show ?thesis
      by (simp add: gpkg_to_geojson_valid [OF i stub_fiona_opens_blob] layer_outcome_def c
            serialise_def d)
  qed
  show ?thesis
    using o r by (simp add: blob_layer_def)
qed

lemma transform_call_in_spec_calls:
  "needs_reprojection src \<Longrightarrow> i < length recs \<Longrightarrow>
   truthy (dict_get (recs ! i) (ascii ''geometry'')) \<Longrightarrow>
   TransformGeom (spec_src_crs src) target_crs (dict_get (recs ! i) (ascii ''geometry''))
     \<in> set (spec_transform_calls src recs)"
  by (auto simp add: spec_transform_calls_def)

text \<open>
  Claim C3. On the library path, when the reprojection of one feature's geometry is
  attempted and raises, nothing of it reaches the caller: the call returns the
  serialised collection as usual, in that collection feature i keeps the geometry
  record i had before the transform, and every other feature is what its own record
  makes it.
\<close>

theorem reprojection_failure_keeps_geometry:
  assumes "import_fiona env = Inr lib"
    and "\<forall>fs p. map_of fs p = Some bs \<longrightarrow> fiona_open lib fs p = Inr src"
    and "iter_error src = None"
    and "i < length (records src)"
    and "truthy (dict_get (records src ! i) (ascii ''geometry''))"
    and "needs_reprojection src"
    and "transform_geom lib (spec_src_crs src) target_crs
           (dict_get (records src ! i) (ascii ''geometry'')) = Inl e"
    and "json_dumps env (spec_document lib src) = Inr txt"
    and "\<forall>c\<in>set txt. c < 128"
  shows "fst (gpkg_to_geojson env (Inr bs) w) = Inr (map char_of txt)
       \<and> TransformGeom (spec_src_crs src) target_crs (dict_get (records src ! i) (ascii ''geometry''))
           \<in> set (calls (snd (gpkg_to_geojson env (Inr bs) w)))
       \<and> last (calls (snd (gpkg_to_geojson env (Inr bs) w))) = JsonDumps (spec_document lib src)
       \<and> (\<exists>feats.
             spec_document lib src
               = PDict [(ascii ''type'', PStr (ascii ''FeatureCollection'')),
                        (ascii ''features'', PList feats)]
             \<and> length feats = length (records src)
             \<and> feats ! i
                 = PDict [(ascii ''type'', PStr (ascii ''Feature'')),
                          (ascii ''geometry'', dict_get (records src ! i) (ascii ''geometry'')),
                          (ascii ''properties'', spec_properties (records src ! i))]
             \<and> (\<forall>j<length (records src).
                   j \<noteq> i \<longrightarrow> feats ! j = spec_feature lib src (records src ! j)))"
proof -
  note run = gpkg_to_geojson_valid [OF assms(1,2), of w]
  have r: "fst (gpkg_to_geojson env (Inr bs) w) = Inr (map char_of txt)"
    by (simp add: run layer_outcome_def assms(3) serialise_ascii [OF assms(8,9)])
  have t: "TransformGeom (spec_src_crs src) target_crs (dict_get (records src ! i) (ascii ''geometry''))
           \<in> set (calls (snd (gpkg_to_geojson env (Inr bs) w)))"
    using transform_call_in_spec_calls [OF assms(6,4,5)]
    by (simp add: run layer_calls_def)
  have l: "last (calls (snd (gpkg_to_geojson env (Inr bs) w))) = JsonDumps (spec_document lib src)"
    by (simp add: run layer_calls_def assms(3))
  have g: "spec_geometry lib src (dict_get (records src ! i) (ascii ''geometry''))
             = dict_get (records src ! i) (ascii ''geometry'')"
    by (simp add: spec_geometry_def assms(5,6,7))
  have f: "map (spec_feature lib src) (records src) ! i
                 = PDict [(ascii ''type'', PStr (ascii ''Feature'')),
                          (ascii ''geometry'', dict_get (records src ! i) (ascii ''geometry'')),
                          (ascii ''properties'', spec_properties (records src ! i))]"
    using assms(4) by (simp add: spec_feature_def g)
  show ?thesis
    using r t l f spec_document_features [of lib src]
    by (intro conjI exI [of _ "map (spec_feature lib src) (records src)"]) simp_all
qed

theorem reprojection_failure_keeps_geometry_witness:
  \<open>fst (gpkg_to_geojson env_with_fiona (Inr sample_gpkg) empty_world)
     = Inr ''{"type": "FeatureCollection", "features": ["..."]}''
   \<and> transform_geom stub_fiona (spec_src_crs sample_layer) target_crs malformed_point
       = Inl (OtherException (ascii ''ValueError'') (ascii ''malformed geometry''))
   \<and> dict_get (records sample_layer ! 2) (ascii ''geometry'') = malformed_point
   \<and> TransformGeom (spec_src_crs sample_layer) target_crs malformed_point
       \<in> set (calls (snd (gpkg_to_geojson env_with_fiona (Inr sample_gpkg) empty_world)))
   \<and> (\<exists>feats.
         spec_document stub_fiona sample_layer
           = PDict [(ascii ''type'', PStr (ascii ''FeatureCollection'')),
                    (ascii ''features'', PList feats)]
         \<and> feats ! 2
             = PDict [(ascii ''type'', PStr (ascii ''Feature'')),
                      (ascii ''geometry'', malformed_point),
                      (ascii ''properties'', PDict [(ascii ''name'', PStr (ascii ''c''))])])\<close>
proof -
  have a: "import_fiona env_with_fiona = Inr stub_fiona"
    by (simp add: env_with_fiona_def)
  have c: "iter_error sample_layer = None"
    by (simp add: sample_layer_def)
  have i: "2 < length (records sample_layer)"
    by (simp add: sample_layer_def)
  have g: "dict_get (records sample_layer ! 2) (ascii ''geometry'') = malformed_point"
    by (simp add: sample_layer_def dict_get_def)
  have t: "truthy (dict_get (records sample_layer ! 2) (ascii ''geometry''))"
    by (simp add: g malformed_point_def)
  have f: "transform_geom stub_fiona (spec_src_crs sample_layer) target_crs
             (dict_get (records sample_layer ! 2) (ascii ''geometry''))
           = Inl (OtherException (ascii ''ValueError'') (ascii ''malformed geometry''))"
    by (simp add: g stub_fiona_def)
  have p: "spec_properties (records sample_layer ! 2) = PDict [(ascii ''name'', PStr (ascii ''c''))]"
    by (simp add: sample_layer_def spec_properties_def)
  show ?thesis
    using reprojection_failure_keeps_geometry
            [OF a stub_fiona_opens_sample c i t sample_needs_reprojection f
                stub_dumps_document stub_dumps_is_ascii, of empty_world]
          f
    by (simp add: g p) blast
qed

lemma needs_reprojection_iff:
  "needs_reprojection src
     = (\<exists>d. crs src = Some d \<and> d \<noteq> []
            \<and> dict_get d (ascii ''init'') \<noteq> PStr (ascii ''epsg:4326''))"
  by (simp add: needs_reprojection_def split: option.splits)

lemma spec_document_unprojected:
  "\<not> needs_reprojection src \<Longrightarrow>
   spec_document lib src =
     PDict [(ascii ''type'', PStr (ascii ''FeatureCollection'')),
            (ascii ''features'',
             PList (map (\<lambda>rec. PDict [(ascii ''type'', PStr (ascii ''Feature'')),
                                       (ascii ''geometry'', dict_get rec (ascii ''geometry'')),
                                       (ascii ''properties'', spec_properties rec)])
                        (records src)))]"
  by (simp add: spec_document_def spec_feature_def spec_geometry_def)

text \<open>
  Claim C5. On the library path the reprojections attempted during a call are: one
  for every record whose geometry is present, in record order, when the layer has
  CRS metadata (neither \<^verbatim>\<open>None\<close> nor empty) whose \<^verbatim>\<open>init\<close> entry is not
  \<^verbatim>\<open>epsg:4326\<close>; none at all otherwise. In the second case every feature of the
  serialised document carries the geometry of its record unchanged.
\<close>

theorem reprojection_attempted_iff_crs_differs:
  assumes "import_fiona env = Inr lib"
    and "\<forall>fs p. map_of fs p = Some bs \<longrightarrow> fiona_open lib fs p = Inr src"
    and "iter_error src = None"
  shows "needs_reprojection src
           = (\<exists>d. crs src = Some d \<and> d \<noteq> []
                  \<and> dict_get d (ascii ''init'') \<noteq> PStr (ascii ''epsg:4326''))
       \<and> filter is_TransformGeom (calls (snd (gpkg_to_geojson env (Inr bs) w)))
           = filter is_TransformGeom (calls w)
             @ (if needs_reprojection src
                then map (TransformGeom (spec_src_crs src) target_crs)
                       (filter truthy (map (\<lambda>rec. dict_get rec (ascii ''geometry'')) (records src)))
                else [])
       \<and> last (calls (snd (gpkg_to_geojson env (Inr bs) w))) = JsonDumps (spec_document lib src)
       \<and> (\<not> needs_reprojection src \<longrightarrow>
            spec_document lib src =
              PDict [(ascii ''type'', PStr (ascii ''FeatureCollection'')),
                     (ascii ''features'',
                      PList (map (\<lambda>rec. PDict [(ascii ''type'', PStr (ascii ''Feature'')),
                                                (ascii ''geometry'', dict_get rec (ascii ''geometry'')),
                                                (ascii ''properties'', spec_properties rec)])
                                 (records src)))])"
proof -
  note run = gpkg_to_geojson_valid [OF assms(1,2), of w]
  have c: "filter is_TransformGeom (calls (snd (gpkg_to_geojson env (Inr bs) w)))
           = filter is_TransformGeom (calls w) @ spec_transform_calls src (records src)"
    by (simp add: run layer_calls_def assms(3))
  have l: "last (calls (snd (gpkg_to_geojson env (Inr bs) w))) = JsonDumps (spec_document lib src)"
    by (simp add: run layer_calls_def assms(3))
  show ?thesis
    using c l needs_reprojection_iff [of src] spec_document_unprojected [of src lib]
    by (simp add: spec_transform_calls_def)
qed

theorem reprojection_attempted_iff_crs_differs_witness:
  "\<not> needs_reprojection wgs84_layer
   \<and> filter is_TransformGeom (calls (snd (gpkg_to_geojson env_with_fiona (Inr wgs84_gpkg) empty_world)))
       = []
   \<and> last (calls (snd (gpkg_to_geojson env_with_fiona (Inr wgs84_gpkg) empty_world)))
       = JsonDumps
           (PDict [(ascii ''type'', PStr (ascii ''FeatureCollection'')),
                   (ascii ''features'',
                    PList [PDict [(ascii ''type'', PStr (ascii ''Feature'')),
                                  (ascii ''geometry'', point 0x4021F75104D551D7 0x4022000000000000),
                                  (ascii ''properties'', PDict [(ascii ''name'', PStr (ascii ''a''))])]])])"
proof -
  have a: "import_fiona env_with_fiona = Inr stub_fiona"
    by (simp add: env_with_fiona_def)
  have c: "iter_error wgs84_layer = None"
    by (simp add: wgs84_layer_def)
  have n: "\<not> needs_reprojection wgs84_layer"
    by (simp add: needs_reprojection_def wgs84_layer_def dict_get_def)
  show ?thesis
    using reprojection_attempted_iff_crs_differs [OF a stub_fiona_opens_wgs84 c, of empty_world] n
    by (simp add: wgs84_layer_def empty_world_def spec_properties_def dict_get_def)
qed

text \<open>
  Claim C10. On the library path every element of the list \<^verbatim>\<open>features\<close> handed to
  \<^verbatim>\<open>json.dumps\<close> is a dictionary with exactly the keys \<^verbatim>\<open>type\<close>, \<^verbatim>\<open>geometry\<close> and
  \<^verbatim>\<open>properties\<close>, in this order, with \<^verbatim>\<open>type\<close> equal to \<^verbatim>\<open>Feature\<close>. There is one
  per record: a record whose geometry is missing or \<^verbatim>\<open>None\<close> gives a feature with
  geometry \<^verbatim>\<open>None\<close>, and \<^verbatim>\<open>None\<close> is never passed to \<^verbatim>\<open>transform_geom\<close>; a record
  whose property mapping is missing gives a feature with the empty mapping.
\<close>

theorem features_have_three_keys:
  assumes "import_fiona env = Inr lib"
    and "\<forall>fs p. map_of fs p = Some bs \<longrightarrow> fiona_open lib fs p = Inr src"
    and "iter_error src = None"
  shows "last (calls (snd (gpkg_to_geojson env (Inr bs) w))) = JsonDumps (spec_document lib src)
       \<and> (\<exists>feats.
             spec_document lib src
               = PDict [(ascii ''type'', PStr (ascii ''FeatureCollection'')),
                        (ascii ''features'', PList feats)]
             \<and> length feats = length (records src)
             \<and> (\<forall>i<length (records src).
                   \<exists>g p. feats ! i
                           = PDict [(ascii ''type'', PStr (ascii ''Feature'')),
                                    (ascii ''geometry'', g),
                                    (ascii ''properties'', p)]
                     \<and> (dict_get (records src ! i) (ascii ''geometry'') = PNone \<longrightarrow> g = PNone)
                     \<and> (dict_get (records src ! i) (ascii ''properties'') = PNone
                          \<longrightarrow> p = PDict [])))
       \<and> (\<forall>a b. TransformGeom a b PNone \<in> set (calls (snd (gpkg_to_geojson env (Inr bs) w)))
                   \<longrightarrow> TransformGeom a b PNone \<in> set (calls w))"
proof -
  note run = gpkg_to_geojson_valid [OF assms(1,2), of w]
  have l: "last (calls (snd (gpkg_to_geojson env (Inr bs) w))) = JsonDumps (spec_document lib src)"
    by (simp add: run layer_calls_def assms(3))
  have f: "\<forall>i<length (records src).
             \<exists>g p. map (spec_feature lib src) (records src) ! i
                     = PDict [(ascii ''type'', PStr (ascii ''Feature'')),
                              (ascii ''geometry'', g),
                              (ascii ''properties'', p)]
               \<and> (dict_get (records src ! i) (ascii ''geometry'') = PNone \<longrightarrow> g = PNone)
               \<and> (dict_get (records src ! i) (ascii ''properties'') = PNone \<longrightarrow> p = PDict [])"
    by (simp add: spec_feature_def spec_geometry_def spec_properties_code py_or_def)
  have n: "TransformGeom a b PNone \<notin> set (spec_transform_calls src (records src))" for a b
    by (auto simp add: spec_transform_calls_def)
  have t: "\<forall>a b. TransformGeom a b PNone \<in> set (calls (snd (gpkg_to_geojson env (Inr bs) w)))
                   \<longrightarrow> TransformGeom a b PNone \<in> set (calls w)"
    using n by (simp add: run layer_calls_def assms(3))
  show ?thesis
    using l f t spec_document_features [of lib src]
    by (intro conjI exI [of _ "map (spec_feature lib src) (records src)"]) simp_all
qed

theorem features_have_three_keys_witness:
  "dict_get (records sample_layer ! 1) (ascii ''geometry'') = PNone
   \<and> dict_get (records sample_layer ! 1) (ascii ''properties'') = PNone
   \<and> (\<exists>feats.
         last (calls (snd (gpkg_to_geojson env_with_fiona (Inr sample_gpkg) empty_world)))
           = JsonDumps (PDict [(ascii ''type'', PStr (ascii ''FeatureCollection'')),
                               (ascii ''features'', PList feats)])
         \<and> length feats = 3
         \<and> feats ! 1 = PDict [(ascii ''type'', PStr (ascii ''Feature'')),
                               (ascii ''geometry'', PNone),
                               (ascii ''properties'', PDict [])])"
proof -
  have a: "import_fiona env_with_fiona = Inr stub_fiona"
    by (simp add: env_with_fiona_def)
  have c: "iter_error sample_layer = None"
    by (simp add: sample_layer_def)
  have g: "dict_get (records sample_layer ! 1) (ascii ''geometry'') = PNone"
    by (simp add: sample_layer_def dict_get_def)
  have p: "dict_get (records sample_layer ! 1) (ascii ''properties'') = PNone"
    by (simp add: sample_layer_def dict_get_def)
  have n: "length (records sample_layer) = 3" "(1::nat) < 3"
    by (simp_all add: sample_layer_def)
  from features_have_three_keys [OF a stub_fiona_opens_sample c, of empty_world]
  obtain feats where
    l: "last (calls (snd (gpkg_to_geojson env_with_fiona (Inr sample_gpkg) empty_world)))
          = JsonDumps (spec_document stub_fiona sample_layer)"
    and d: "spec_document stub_fiona sample_layer
          = PDict [(ascii ''type'', PStr (ascii ''FeatureCollection'')),
                   (ascii ''features'', PList feats)]"
    and len: "length feats = length (records sample_layer)"
    and each: "\<forall>i<length (records sample_layer).
                   \<exists>g p. feats ! i
                           = PDict [(ascii ''type'', PStr (ascii ''Feature'')),
                                    (ascii ''geometry'', g),
                                    (ascii ''properties'', p)]
                     \<and> (dict_get (records sample_layer ! i) (ascii ''geometry'') = PNone \<longrightarrow> g = PNone)
                     \<and> (dict_get (records sample_layer ! i) (ascii ''properties'') = PNone
                          \<longrightarrow> p = PDict [])"
    by blast
  have "1 < length (records sample_layer)"
    by (simp add: sample_layer_def)
  with each obtain g' p' where
    "feats ! 1 = PDict [(ascii ''type'', PStr (ascii ''Feature'')),
                        (ascii ''geometry'', g'), (ascii ''properties'', p')]"
    and "dict_get (records sample_layer ! 1) (ascii ''geometry'') = PNone \<longrightarrow> g' = PNone"
    and "dict_get (records sample_layer ! 1) (ascii ''properties'') = PNone \<longrightarrow> p' = PDict []"
    by blast
  with g p have "feats ! 1 = PDict [(ascii ''type'', PStr (ascii ''Feature'')),
                               (ascii ''geometry'', PNone),
                               (ascii ''properties'', PDict [])]"
    by simp
  with l d len n g p show ?thesis by auto
qed

section \<open>Claims about the fallback\<close>

text \<open>
  Claim C7. On the process path (Fiona cannot be imported), if the converter, run on
  the temporary copy of the input bytes, exits with status zero, \<open>gpkg_to_geojson\<close>
  returns exactly the bytes the process wrote to standard output.
\<close>

theorem process_path_returns_stdout:
  assumes "import_fiona env = Inl e"
    and "\<forall>fs p. map_of fs p = Some bs \<longrightarrow> run_process env (ogr2ogr_cmd p) fs = Inr proc"
    and "returncode proc = 0"
  shows "fst (gpkg_to_geojson env (Inr bs) w) = Inr (stdout proc)"
proof -
  have "run_process env (ogr2ogr_cmd (tmp_name (ascii ''.gpkg'') (files w)))
          (AList.update (tmp_name (ascii ''.gpkg'') (files w)) bs (files w)) = Inr proc"
    using assms(2) by (simp add: stored_lookup)
  then show ?thesis
    using assms(3)
    by (simp add: import_failed [OF assms(1)] process_path_outcome process_outcome_def)
qed

theorem process_path_returns_stdout_witness:
  \<open>fst (gpkg_to_geojson env_without_fiona (Inr sample_gpkg) empty_world)
     = Inr ''{"type":"FeatureCollection","features":[]}''\<close>
proof -
  have a: "import_fiona env_without_fiona
     = Inl (OtherException (ascii ''ModuleNotFoundError'') (ascii ''No module named fiona''))"
    by (simp add: env_without_fiona_def)
  have b: \<open>\<forall>fs p. map_of fs p = Some sample_gpkg \<longrightarrow>
          run_process env_without_fiona (ogr2ogr_cmd p) fs
            = Inr \<lparr>returncode = 0, stdout = ''{"type":"FeatureCollection","features":[]}'',
                   stderr = []\<rparr>\<close>
    by (simp add: env_without_fiona_def stub_ogr2ogr_def ogr2ogr_cmd_def)
  show ?thesis
    using process_path_returns_stdout [OF a b, of empty_world] by simp
qed

lemma decode_well_formed_prefix:
  assumes "bytes_decode_utf8 Replace (a @ rest) = Inr msg" "str_encode_utf8 s = Inr a"
  shows "\<exists>t. bytes_decode_utf8 Replace rest = Inr t \<and> msg = s @ t"
proof -
  obtain t where t: "bytes_decode_utf8 Replace rest = Inr t"
    using bytes_decode_replace_total by blast
  from bytes_decode_encoded_prefix [OF assms(2), of Replace rest]
  have "bytes_decode_utf8 Replace (a @ rest) = Inr (s @ t)"
    by (simp add: t)
  with assms(1) t show ?thesis by simp
qed

lemma decode_invalid_start_after_prefix:
  assumes "bytes_decode_utf8 Replace (a @ c # rest) = Inr msg" "str_encode_utf8 s = Inr a"
    and "(0x80 \<le> (of_char c :: nat) \<and> (of_char c :: nat) < 0xC2) \<or> 0xF5 \<le> (of_char c :: nat)"
  shows "\<exists>t. bytes_decode_utf8 Replace rest = Inr t \<and> msg = s @ 0xFFFD # t"
proof -
  obtain t where t: "bytes_decode_utf8 Replace rest = Inr t"
    using bytes_decode_replace_total by blast
  have "bytes_decode_utf8 Replace (c # rest) = Inr (0xFFFD # t)"
    by (simp only: bytes_decode_invalid_start [OF assms(3)] t sum.case)
  with bytes_decode_encoded_prefix [OF assms(2), of Replace "c # rest"]
  have "bytes_decode_utf8 Replace (a @ c # rest) = Inr (s @ 0xFFFD # t)"
    by (simp only: sum.case)
  with assms(1) t show ?thesis by simp
qed


lemma garbled_tail_decoded:
  "utf8_decode Replace [0xC3, 0xA9, 0xE9, 0x20, 0xE2, 0x82, 0x3A]
     = Inr [0xE9, 0xFFFD, 0x20, 0xFFFD, 0x3A]"
  by (simp add: is_continuation_def)

lemma garbled_bytes:
  "map of_char [CHR 0xC3, CHR 0xA9, CHR 0xE9, CHR 0x20, CHR 0xE2, CHR 0x82, CHR 0x3A]
     = [0xC3, 0xA9, 0xE9, 0x20, 0xE2, 0x82, 0x3A :: nat]"
  by simp

lemma garbled_prefix: "str_encode_utf8 (ascii ''bad layer: '') = Inr ''bad layer: ''"
proof -
  have "\<forall>c\<in>set (ascii ''bad layer: ''). c < 128"
    by (rule ascii_below_128) simp
  from str_encode_ascii [OF this] show ?thesis by simp
qed


lemma garbled_stderr_decoded:
  "bytes_decode_utf8 Replace garbled_stderr
     = Inr (ascii ''bad layer: '' @ [0xE9, 0xFFFD, 0x20, 0xFFFD, 0x3A])"
proof -
  have t: "bytes_decode_utf8 Replace
             [CHR 0xC3, CHR 0xA9, CHR 0xE9, CHR 0x20, CHR 0xE2, CHR 0x82, CHR 0x3A]
             = Inr [0xE9, 0xFFFD, 0x20, 0xFFFD, 0x3A]"
    by (simp only: bytes_decode_utf8_def garbled_bytes garbled_tail_decoded)
  show ?thesis
    by (simp only: garbled_stderr_def bytes_decode_encoded_prefix [OF garbled_prefix] t sum.case)
qed


lemma bad_layer_decoded: "bytes_decode_utf8 Replace ''bad layer'' = Inr (ascii ''bad layer'')"
  by (rule bytes_decode_ascii) simp

text \<open>
  Claim C8. On the process path, if the converter, run on the temporary copy of the
  input bytes, exits with a non-zero status, \<open>gpkg_to_geojson\<close> raises
  \<open>RuntimeError\<close> with the message \<^verbatim>\<open>ogr2ogr failed: \<close> followed by the captured
  standard error decoded as UTF-8 with replacement. The decoding always yields a
  text (no second failure). What it yields: a prefix of standard error that is the
  UTF-8 encoding of a text is decoded to that text and the rest is decoded on its
  own; a byte behind such a prefix that cannot start a sequence becomes U+FFFD;
  standard error that is not the UTF-8 encoding of any text leaves U+FFFD in the
  message; standard error in ASCII is embedded as it is, so the message for
  \<^verbatim>\<open>bad layer\<close> contains \<^verbatim>\<open>bad layer\<close>.
\<close>

theorem process_path_failure_message:
  assumes "import_fiona env = Inl e"
    and "run_process env (ogr2ogr_cmd (tmp_name (ascii ''.gpkg'') (files w)))
           (AList.update (tmp_name (ascii ''.gpkg'') (files w)) bs (files w)) = Inr proc"
    and "returncode proc \<noteq> 0"
  shows "\<exists>msg. bytes_decode_utf8 Replace (stderr proc) = Inr msg
           \<and> fst (gpkg_to_geojson env (Inr bs) w)
               = Inl (RuntimeError (ascii ''ogr2ogr failed: '' @ msg))
           \<and> sublist msg (ascii ''ogr2ogr failed: '' @ msg)
           \<and> (\<forall>s a rest. stderr proc = a @ rest \<and> str_encode_utf8 s = Inr a \<longrightarrow>
                  (\<exists>t. bytes_decode_utf8 Replace rest = Inr t \<and> msg = s @ t))
           \<and> (\<forall>s a c rest.
                  stderr proc = a @ c # rest \<and> str_encode_utf8 s = Inr a
                  \<and> ((0x80 \<le> (of_char c :: nat) \<and> (of_char c :: nat) < 0xC2)
                       \<or> 0xF5 \<le> (of_char c :: nat)) \<longrightarrow>
                  (\<exists>t. bytes_decode_utf8 Replace rest = Inr t \<and> msg = s @ 0xFFFD # t))
           \<and> ((\<forall>s. str_encode_utf8 s \<noteq> Inr (stderr proc)) \<longrightarrow> 0xFFFD \<in> set msg)
           \<and> ((\<forall>c\<in>set (stderr proc). of_char c < (128::nat)) \<longrightarrow> msg = ascii (stderr proc))
           \<and> (stderr proc = ''bad layer'' \<longrightarrow> msg = ascii ''bad layer'')"
proof -
  obtain msg where msg: "bytes_decode_utf8 Replace (stderr proc) = Inr msg"
    using bytes_decode_replace_total by blast
  have res: "fst (gpkg_to_geojson env (Inr bs) w)
               = Inl (RuntimeError (ascii ''ogr2ogr failed: '' @ msg))"
    using assms(3) msg
    by (simp add: import_failed [OF assms(1)] process_path_outcome assms(2) process_outcome_def
          failure_message_def)
  have sub: "sublist msg (ascii ''ogr2ogr failed: '' @ msg)"
    using sublist_appendI [of msg "ascii ''ogr2ogr failed: ''" "[]"] by simp
  have pre: "\<forall>s a rest. stderr proc = a @ rest \<and> str_encode_utf8 s = Inr a \<longrightarrow>
                  (\<exists>t. bytes_decode_utf8 Replace rest = Inr t \<and> msg = s @ t)"
  proof (intro allI impI, elim conjE)
    fix s a rest
    assume "stderr proc = a @ rest" "str_encode_utf8 s = Inr a"
    with msg show "\<exists>t. bytes_decode_utf8 Replace rest = Inr t \<and> msg = s @ t"
      by (intro decode_well_formed_prefix [of a rest msg s]) simp_all
  qed
  have inv: "\<forall>s a c rest.
                  stderr proc = a @ c # rest \<and> str_encode_utf8 s = Inr a
                  \<and> ((0x80 \<le> (of_char c :: nat) \<and> (of_char c :: nat) < 0xC2)
                       \<or> 0xF5 \<le> (of_char c :: nat)) \<longrightarrow>
                  (\<exists>t. bytes_decode_utf8 Replace rest = Inr t \<and> msg = s @ 0xFFFD # t)"
  proof (intro allI impI, elim conjE)
    fix s a c rest
    assume h: "stderr proc = a @ c # rest" "str_encode_utf8 s = Inr a"
      "(0x80 \<le> (of_char c :: nat) \<and> (of_char c :: nat) < 0xC2) \<or> 0xF5 \<le> (of_char c :: nat)"
    from msg h(1) have "bytes_decode_utf8 Replace (a @ c # rest) = Inr msg" by simp
    from decode_invalid_start_after_prefix [OF this h(2,3)]
    show "\<exists>t. bytes_decode_utf8 Replace rest = Inr t \<and> msg = s @ 0xFFFD # t" .
  qed
  have rep: "(\<forall>s. str_encode_utf8 s \<noteq> Inr (stderr proc)) \<longrightarrow> 0xFFFD \<in> set msg"
  proof
    assume n: "\<forall>s. str_encode_utf8 s \<noteq> Inr (stderr proc)"
    show "0xFFFD \<in> set msg"
    proof (rule ccontr)
      assume "0xFFFD \<notin> set msg"
      from bytes_decode_no_replacement [OF msg this] n show False by simp
    qed
  qed
  have asc: "(\<forall>c\<in>set (stderr proc). of_char c < (128::nat)) \<longrightarrow> msg = ascii (stderr proc)"
    using msg bytes_decode_ascii [of "stderr proc" Replace] by auto
  have bad: "stderr proc = ''bad layer'' \<longrightarrow> msg = ascii ''bad layer''"
  proof
    assume b: "stderr proc = ''bad layer''"
    have "\<forall>c\<in>set ''bad layer''. of_char c < (128::nat)" by simp
    with asc b show "msg = ascii ''bad layer''" by simp
  qed
  show ?thesis
    by (rule exI [of _ msg]) (intro conjI msg res sub pre inv rep asc bad)
qed

theorem process_path_failure_message_witness:
  "fst (gpkg_to_geojson env_without_fiona (Inr ''not a GeoPackage'') empty_world)
     = Inl (RuntimeError (ascii ''ogr2ogr failed: '' @ ascii ''bad layer''))
   \<and> sublist (ascii ''bad layer'') (ascii ''ogr2ogr failed: '' @ ascii ''bad layer'')
   \<and> fst (gpkg_to_geojson env_without_fiona (Inr garbled_gpkg) empty_world)
       = Inl (RuntimeError (ascii ''ogr2ogr failed: ''
                            @ ascii ''bad layer: '' @ [0xE9, 0xFFFD, 0x20, 0xFFFD, 0x3A]))"
proof -
  have a: "import_fiona env_without_fiona
     = Inl (OtherException (ascii ''ModuleNotFoundError'') (ascii ''No module named fiona''))"
    by (simp add: env_without_fiona_def)
  have b: "run_process env_without_fiona
             (ogr2ogr_cmd (tmp_name (ascii ''.gpkg'') (files empty_world)))
             (AList.update (tmp_name (ascii ''.gpkg'') (files empty_world)) ''not a GeoPackage''
                (files empty_world))
            = Inr \<lparr>returncode = 1, stdout = [], stderr = ''bad layer''\<rparr>"
    by (simp add: env_without_fiona_def stub_ogr2ogr_def ogr2ogr_cmd_def stored_lookup
          sample_gpkg_def garbled_gpkg_def)
  have b': "run_process env_without_fiona
             (ogr2ogr_cmd (tmp_name (ascii ''.gpkg'') (files empty_world)))
             (AList.update (tmp_name (ascii ''.gpkg'') (files empty_world)) garbled_gpkg
                (files empty_world))
            = Inr \<lparr>returncode = 1, stdout = [], stderr = garbled_stderr\<rparr>"
    by (simp add: env_without_fiona_def stub_ogr2ogr_def ogr2ogr_cmd_def stored_lookup
          sample_gpkg_def garbled_gpkg_def)
  have c: "returncode \<lparr>returncode = 1, stdout = [], stderr = x\<rparr> \<noteq> 0" for x :: bytes
    by simp
  have s: "stderr \<lparr>returncode = 1, stdout = [], stderr = x\<rparr> = x" for x :: bytes
    by simp
  from process_path_failure_message [OF a b c, unfolded s]
  obtain msg where
    d: "bytes_decode_utf8 Replace ''bad layer'' = Inr msg"
    and r: "fst (gpkg_to_geojson env_without_fiona (Inr ''not a GeoPackage'') empty_world)
              = Inl (RuntimeError (ascii ''ogr2ogr failed: '' @ msg))"
    and u: "sublist msg (ascii ''ogr2ogr failed: '' @ msg)"
  proof (elim exE conjE)
    fix m
    assume "bytes_decode_utf8 Replace ''bad layer'' = Inr m"
      "fst (gpkg_to_geojson env_without_fiona (Inr ''not a GeoPackage'') empty_world)
         = Inl (RuntimeError (ascii ''ogr2ogr failed: '' @ m))"
      "sublist m (ascii ''ogr2ogr failed: '' @ m)"
    then show thesis by (rule that)
  qed
  from d have m: "msg = ascii ''bad layer''"
    by (simp only: bad_layer_decoded sum.inject)
  from process_path_failure_message [OF a b' c, unfolded s]
  obtain msg' where
    d': "bytes_decode_utf8 Replace garbled_stderr = Inr msg'"
    and r': "fst (gpkg_to_geojson env_without_fiona (Inr garbled_gpkg) empty_world)
              = Inl (RuntimeError (ascii ''ogr2ogr failed: '' @ msg'))"
  proof (elim exE conjE)
    fix m
    assume "bytes_decode_utf8 Replace garbled_stderr = Inr m"
      "fst (gpkg_to_geojson env_without_fiona (Inr garbled_gpkg) empty_world)
         = Inl (RuntimeError (ascii ''ogr2ogr failed: '' @ m))"
    then show thesis by (rule that)
  qed
  from d' have m': "msg' = ascii ''bad layer: '' @ [0xE9, 0xFFFD, 0x20, 0xFFFD, 0x3A]"
    by (simp only: garbled_stderr_decoded sum.inject)
  show ?thesis
    using r u r' unfolding m m' by (intro conjI)
qed

section \<open>Claims about the choice of branch\<close>

lemma layer_calls_no_subprocess [simp]: "filter is_SubprocessRun (layer_calls lib r) = []"
  by (auto simp add: layer_calls_def spec_transform_calls_def filter_empty_conv
        split: sum.splits option.splits)

lemma layer_outcome_run_process [simp]:
  "layer_outcome (env\<lparr>run_process := rp\<rparr>) lib r = layer_outcome env lib r"
  by (simp add: layer_outcome_def serialise_def split: sum.splits option.splits)

lemma library_path_run_process:
  "library_path (env\<lparr>run_process := rp\<rparr>) lib f w = library_path env lib f w"
  by (cases f) (simp_all add: library_path_read_fails library_path_outcome)

lemma library_path_no_subprocess:
  "filter is_SubprocessRun (calls (snd (library_path env lib f w)))
     = filter is_SubprocessRun (calls w)"
  by (cases f) (simp_all add: library_path_read_fails library_path_outcome)

lemma process_path_only_subprocess:
  "filter (\<lambda>c. \<not> is_SubprocessRun c) (calls (snd (process_path env f w)))
     = filter (\<lambda>c. \<not> is_SubprocessRun c) (calls w)"
  by (cases f) (simp_all add: process_path_read_fails process_path_outcome)

text \<open>
  Claim C6. Which branch runs is decided by the import alone, at every call. When
  Fiona is imported the call is the library branch: its outcome is what the library
  branch makes of \<^verbatim>\<open>fiona.open\<close> (every exception of the library, the iteration or
  the serialisation is the outcome of the call), no process is started, and the
  launcher has no influence on the call. Only when the import fails does the
  fallback run, and then nothing but the process is called.
\<close>

theorem library_present_never_falls_back:
  "(case import_fiona env of
      Inr lib \<Rightarrow>
        gpkg_to_geojson env f w = library_path env lib f w
        \<and> filter is_SubprocessRun (calls (snd (gpkg_to_geojson env f w)))
            = filter is_SubprocessRun (calls w)
        \<and> (\<forall>rp. gpkg_to_geojson (env\<lparr>run_process := rp\<rparr>) f w = gpkg_to_geojson env f w)
        \<and> (\<forall>bs. f = Inr bs \<longrightarrow>
              fst (gpkg_to_geojson env f w)
                = layer_outcome env lib
                    (fiona_open lib
                       (AList.update (tmp_name (ascii ''.gpkg'') (files w)) bs (files w))
                       (tmp_name (ascii ''.gpkg'') (files w))))
    | Inl e \<Rightarrow>
        gpkg_to_geojson env f w = process_path env f w
        \<and> filter (\<lambda>c. \<not> is_SubprocessRun c) (calls (snd (gpkg_to_geojson env f w)))
            = filter (\<lambda>c. \<not> is_SubprocessRun c) (calls w))"
proof (cases "import_fiona env")
  case (Inl e)
  then show ?thesis
    by (simp add: import_failed process_path_only_subprocess)
next
  case (Inr lib)
  have "import_fiona (env\<lparr>run_process := rp\<rparr>) = Inr lib" for rp
    using Inr by simp
  then have "gpkg_to_geojson (env\<lparr>run_process := rp\<rparr>) f w = gpkg_to_geojson env f w" for rp
    by (simp add: import_succeeded Inr library_path_run_process)
  then show ?thesis
    using Inr
    by (simp add: import_succeeded [OF Inr] library_path_no_subprocess library_path_outcome)
qed

theorem library_present_never_falls_back_witness:
  "fst (gpkg_to_geojson env_with_fiona (Inr ''not a GeoPackage'') empty_world)
     = Inl (OtherException (ascii ''DriverError'')
              (ascii ''not recognized as being in a supported file format''))
   \<and> filter is_SubprocessRun
        (calls (snd (gpkg_to_geojson env_with_fiona (Inr ''not a GeoPackage'') empty_world))) = []"
proof -
  have i: "import_fiona env_with_fiona = Inr stub_fiona"
    by (simp add: env_with_fiona_def)
  have c: "calls empty_world = []"
    by (simp add: empty_world_def)
  note t = library_present_never_falls_back
             [of env_with_fiona "Inr ''not a GeoPackage''" empty_world, unfolded i sum.case]
  have "filter is_SubprocessRun
          (calls (snd (gpkg_to_geojson env_with_fiona (Inr ''not a GeoPackage'') empty_world))) = []"
    using t [THEN conjunct2, THEN conjunct1] by (simp add: c)
  moreover
  have "fst (gpkg_to_geojson env_with_fiona (Inr ''not a GeoPackage'') empty_world)
     = Inl (OtherException (ascii ''DriverError'')
              (ascii ''not recognized as being in a supported file format''))"
    using t [THEN conjunct2, THEN conjunct2, THEN conjunct2]
    by (simp add: stub_fiona_rejects layer_outcome_def)
  ultimately show ?thesis by simp
qed

section \<open>Where the code departs from its documentation\<close>

text \<open>
  Claim C2 does not hold of the code. The docstring promises \<^verbatim>\<open>RuntimeError\<close> on
  failure, and the fallback wraps the converter's failure in one; the library branch
  wraps nothing. Here Fiona rejects the input, and its \<^verbatim>\<open>DriverError\<close> is what the
  caller gets.
\<close>

theorem library_error_escapes_unwrapped:
  "fst (gpkg_to_geojson env_with_fiona (Inr ''not a GeoPackage'') empty_world)
     = Inl (OtherException (ascii ''DriverError'')
              (ascii ''not recognized as being in a supported file format''))
   \<and> (\<forall>m. fst (gpkg_to_geojson env_with_fiona (Inr ''not a GeoPackage'') empty_world)
            \<noteq> Inl (RuntimeError m))"
proof -
  have i: "import_fiona env_with_fiona = Inr stub_fiona"
    by (simp add: env_with_fiona_def)
  have "fst (gpkg_to_geojson env_with_fiona (Inr ''not a GeoPackage'') empty_world)
     = Inl (OtherException (ascii ''DriverError'')
              (ascii ''not recognized as being in a supported file format''))"
    by (simp add: import_succeeded [OF i] library_path_outcome stub_fiona_rejects
          layer_outcome_def)
  then show ?thesis by simp
qed

text \<open>
  Claim C4 does not hold of the code either. In the library branch the temporary
  file is created with \<^verbatim>\<open>delete=False\<close> and written inside a \<^verbatim>\<open>with\<close> block that
  comes before the \<^verbatim>\<open>try ... finally\<close> which unlinks it. When \<^verbatim>\<open>file_obj.read()\<close>
  raises there, the file stays: the world was empty before the call and holds the
  temporary file after it. The fallback, whose temporary file deletes itself,
  leaves nothing behind in the same situation; nor does either branch once
  \<^verbatim>\<open>read()\<close> has returned.
\<close>

theorem temporary_file_left_behind:
  "files empty_world = []
   \<and> gpkg_to_geojson env_with_fiona
        (Inl (OtherException (ascii ''ValueError'') (ascii ''I/O operation on closed file'')))
        empty_world
     = (Inl (OtherException (ascii ''ValueError'') (ascii ''I/O operation on closed file'')),
        \<lparr>files = [(tmp_name (ascii ''.gpkg'') [], [])], calls = []\<rparr>)"
proof -
  have i: "import_fiona env_with_fiona = Inr stub_fiona"
    by (simp add: env_with_fiona_def)
  show ?thesis
    by (simp add: import_succeeded [OF i] library_path_read_fails empty_world_def)
qed

lemma temporary_file_removed_after_read:
  "files (snd (gpkg_to_geojson env (Inr bs) w)) = files w"
  by (cases "import_fiona env")
     (simp_all add: import_failed import_succeeded library_path_outcome process_path_outcome)

lemma temporary_file_removed_by_fallback:
  "import_fiona env = Inl e \<Longrightarrow> snd (gpkg_to_geojson env (Inl e') w) = w"
  by (simp add: import_failed process_path_read_fails)

end
